theory Spec2Isabelle
  imports Main "HOL-Library.Word" "HOL-Library.Signed_Division"
begin

unbundle bit_operations_syntax

section \<open>The Tegra watchdog driver (drivers/watchdog/tegra\_wdt.c)\<close>

text \<open>
  The driver is built for a 32-bit ARM SoC: \<open>int\<close>, \<open>unsigned long\<close> and \<open>u32\<close> are
  all 32 bits wide and are modelled as \<open>32 word\<close>; arithmetic wraps, \<open>sint\<close> reads a
  C \<open>int\<close>, and a C condition \<open>x & M\<close> is \<open>x AND M \<noteq> 0\<close>.
\<close>

type_synonym u32 = "32 word"
type_synonym u8 = "8 word"

subsection \<open>Build configuration and module parameters\<close>

text \<open>
  The file has two bodies selected by the preprocessor: \<open>CONFIG_ARCH_TEGRA_2x_SOC\<close>
  (timer plus reset-enable register) and \<open>CONFIG_ARCH_TEGRA_3x_SOC\<close> (watchdog counter
  block with an unlock register).  The remaining switches are
  \<open>CONFIG_TEGRA_FIQ_DEBUGGER\<close> and \<open>CONFIG_TEGRA_WATCHDOG_ENABLE_HEARTBEAT\<close>.
  \<open>heartbeat\<close> and \<open>nowayout\<close> are the two module parameters; \<open>INT_WDT_CPU\<close> comes
  from mach/irqs.h, which is not among the sources, and is a parameter here.
\<close>

datatype soc = Tegra2x | Tegra3x

record config =
  soc :: soc
  fiq_debugger :: bool
  enable_heartbeat :: bool
  heartbeat :: u32
  nowayout :: bool
  INT_WDT_CPU :: nat

definition MIN_WDT_PERIOD :: u32 where "MIN_WDT_PERIOD = 5"
definition MAX_WDT_PERIOD :: u32 where "MAX_WDT_PERIOD = 1000"
definition TMR_SRC_START :: u32 where "TMR_SRC_START = 7"
definition WDT_DEFAULT_TIME :: u32 where "WDT_DEFAULT_TIME = 60"

text \<open>\<open>enum tegra_wdt_status\<close>\<close>

definition WDT_DISABLED :: u32 where "WDT_DISABLED = push_bit 0 1"
definition WDT_ENABLED :: u32 where "WDT_ENABLED = push_bit 1 1"
definition WDT_KERNEL_HEARTBEAT :: u32 where "WDT_KERNEL_HEARTBEAT = push_bit 2 1"

text \<open>Register offsets and bits shared by both bodies.\<close>

definition TIMER_PTV :: nat where "TIMER_PTV = 0"
definition TIMER_EN :: u32 where "TIMER_EN = push_bit 31 1"
definition TIMER_PERIODIC :: u32 where "TIMER_PERIODIC = push_bit 30 1"
definition TIMER_PCR :: nat where "TIMER_PCR = 4"
definition TIMER_PCR_INTR :: u32 where "TIMER_PCR_INTR = push_bit 30 1"

text \<open>Tegra 2 only.\<close>

definition WDT_EN :: u32 where "WDT_EN = push_bit 5 1"
definition WDT_SEL_TMR1 :: u32 where "WDT_SEL_TMR1 = push_bit 4 0"
definition WDT_SYS_RST :: u32 where "WDT_SYS_RST = push_bit 2 1"

text \<open>Tegra 3 only.\<close>

definition WDT_CFG :: nat where "WDT_CFG = 0"
definition WDT_CFG_PERIOD :: u32 where "WDT_CFG_PERIOD = push_bit 4 1"
definition WDT_CFG_INT_EN :: u32 where "WDT_CFG_INT_EN = push_bit 12 1"
definition WDT_CFG_FIQ_INT_EN :: u32 where "WDT_CFG_FIQ_INT_EN = push_bit 13 1"
definition WDT_CFG_SYS_RST_EN :: u32 where "WDT_CFG_SYS_RST_EN = push_bit 14 1"
definition WDT_CFG_PMC2CAR_RST_EN :: u32 where "WDT_CFG_PMC2CAR_RST_EN = push_bit 15 1"
definition WDT_STATUS :: nat where "WDT_STATUS = 4"
definition WDT_INTR_STAT :: u32 where "WDT_INTR_STAT = push_bit 1 1"
definition WDT_STATUS_EXPIR_COUNTER :: u32 where "WDT_STATUS_EXPIR_COUNTER = push_bit 12 3"
definition WDT_CMD :: nat where "WDT_CMD = 8"
definition WDT_CMD_START_COUNTER :: u32 where "WDT_CMD_START_COUNTER = push_bit 0 1"
definition WDT_CMD_DISABLE_COUNTER :: u32 where "WDT_CMD_DISABLE_COUNTER = push_bit 1 1"
definition WDT_UNLOCK :: nat where "WDT_UNLOCK = 0xC"
definition WDT_UNLOCK_PATTERN :: u32 where "WDT_UNLOCK_PATTERN = push_bit 0 0xC45A"
definition ICTLR_IEP_CLASS :: nat where "ICTLR_IEP_CLASS = 0x2C"
definition MAX_NR_CPU_WDT :: nat where "MAX_NR_CPU_WDT = 4"

named_theorems wdt_consts \<open>values of the driver's preprocessor constants\<close>

lemmas consts_unfold [wdt_consts] =
  MIN_WDT_PERIOD_def MAX_WDT_PERIOD_def TMR_SRC_START_def WDT_DEFAULT_TIME_def
  WDT_DISABLED_def WDT_ENABLED_def WDT_KERNEL_HEARTBEAT_def
  TIMER_PTV_def TIMER_EN_def TIMER_PERIODIC_def TIMER_PCR_def TIMER_PCR_INTR_def
  WDT_EN_def WDT_SEL_TMR1_def WDT_SYS_RST_def
  WDT_CFG_def WDT_CFG_PERIOD_def WDT_CFG_INT_EN_def WDT_CFG_FIQ_INT_EN_def
  WDT_CFG_SYS_RST_EN_def WDT_CFG_PMC2CAR_RST_EN_def WDT_STATUS_def WDT_INTR_STAT_def
  WDT_STATUS_EXPIR_COUNTER_def WDT_CMD_def WDT_CMD_START_COUNTER_def
  WDT_CMD_DISABLE_COUNTER_def WDT_UNLOCK_def WDT_UNLOCK_PATTERN_def
  ICTLR_IEP_CLASS_def MAX_NR_CPU_WDT_def

subsection \<open>The instance, its registers and the calls it makes into the kernel\<close>

text \<open>
  A register is addressed as one of the three mapped bases of \<open>struct tegra_wdt\<close>
  (\<open>wdt_source\<close>, \<open>wdt_timer\<close>, \<open>int_base\<close>) plus a byte offset.  Every call that
  leaves the driver (\<open>writel\<close>, \<open>enable_irq\<close>, \<open>disable_irq_nosync\<close>,
  \<open>tasklet_schedule\<close>, the log calls) is recorded, in order, in a trace.
\<close>

datatype iobase = Wdt_source | Wdt_timer | Int_base

type_synonym ioaddr = "iobase \<times> nat"

datatype kevent =
    Writel u32 ioaddr
  | Enable_irq u32
  | Disable_irq_nosync u32
  | Tasklet_schedule
  | Dev_info string
  | Dev_err string
  | Pr_info string
  | Warn_on_once

text \<open>The fields of \<open>struct tegra_wdt\<close> that the driver computes with.\<close>

record tegra_wdt =
  users :: u32
  tmrsrc :: u32
  timeout :: u32
  status :: u32
  way_out_ok :: u32
  irq :: u32
  irq_counter :: u32

text \<open>
  The instance together with its memory-mapped registers (\<open>io\<close>: the content a
  \<open>readl\<close> sees, updated by every \<open>writel\<close>) and the trace of kernel calls.
\<close>

record machine = tegra_wdt +
  io :: "ioaddr \<Rightarrow> u32"
  trace :: "kevent list"

definition emit :: "kevent \<Rightarrow> machine \<Rightarrow> machine" where
  "emit e m = m\<lparr>trace := trace m @ [e]\<rparr>"

definition writel :: "u32 \<Rightarrow> ioaddr \<Rightarrow> machine \<Rightarrow> machine" where
  "writel v a m = emit (Writel v a) (m\<lparr>io := (io m)(a := v)\<rparr>)"

definition readl :: "ioaddr \<Rightarrow> machine \<Rightarrow> u32" where
  "readl a m = io m a"

definition enable_irq :: "u32 \<Rightarrow> machine \<Rightarrow> machine" where
  "enable_irq n m = emit (Enable_irq n) m"

definition disable_irq_nosync :: "u32 \<Rightarrow> machine \<Rightarrow> machine" where
  "disable_irq_nosync n m = emit (Disable_irq_nosync n) m"

definition tasklet_schedule :: "machine \<Rightarrow> machine" where
  "tasklet_schedule m = emit Tasklet_schedule m"

definition dev_info :: "string \<Rightarrow> machine \<Rightarrow> machine" where
  "dev_info msg m = emit (Dev_info msg) m"

definition pr_info :: "string \<Rightarrow> machine \<Rightarrow> machine" where
  "pr_info msg m = emit (Pr_info msg) m"

text \<open>
  Modelled from the spec: \<open>test_and_set_bit\<close>, \<open>set_bit\<close> and \<open>clear_bit\<close> (the
  kernel's atomic bit operations, asm/bitops.h, not among the sources) on the one
  \<open>unsigned long\<close> that holds the exclusivity flag.  \<open>set_bit\<close> is the library's
  \<open>set_bit\<close>.
\<close>

definition test_and_set_bit :: "nat \<Rightarrow> u32 \<Rightarrow> bool \<times> u32" where
  "test_and_set_bit nr w = (bit w nr, set_bit nr w)"

definition clear_bit :: "nat \<Rightarrow> u32 \<Rightarrow> u32" where
  "clear_bit nr w = unset_bit nr w"

subsection \<open>Tegra 2: enable, disable, ping, interrupt\<close>

definition tegra_wdt_enable_2x :: "machine \<Rightarrow> machine" where
  "tegra_wdt_enable_2x m =
    (let val = timeout m * 1000000 div 2;
         val = val OR (TIMER_EN OR TIMER_PERIODIC);
         m = writel val (Wdt_timer, TIMER_PTV) m;
         val = WDT_EN OR WDT_SEL_TMR1 OR WDT_SYS_RST
     in writel val (Wdt_source, 0) m)"

definition tegra_wdt_disable_2x :: "machine \<Rightarrow> machine" where
  "tegra_wdt_disable_2x m =
    (let m = writel 0 (Wdt_source, 0) m
     in writel 0 (Wdt_timer, TIMER_PTV) m)"

definition tegra_wdt_ping_2x :: "machine \<Rightarrow> machine" where
  "tegra_wdt_ping_2x m =
    (let m = tegra_wdt_enable_2x m
     in if irq_counter m \<noteq> 0
        then (let m = writel TIMER_PCR_INTR (Wdt_timer, TIMER_PCR) m;
                  m = m\<lparr>irq_counter := 0\<rparr>
              in enable_irq (irq m) m)
        else m)"

datatype irqreturn = IRQ_NONE | IRQ_HANDLED

definition tegra_wdt_interrupt_2x :: "u32 \<Rightarrow> machine \<Rightarrow> irqreturn \<times> machine" where
  "tegra_wdt_interrupt_2x irqn m =
    (let m = m\<lparr>irq_counter := irq_counter m + 1\<rparr>;
         m = (if status m AND WDT_KERNEL_HEARTBEAT \<noteq> 0
              then tegra_wdt_ping_2x m
              else (let m = tasklet_schedule m
                    in disable_irq_nosync irqn m))
     in (IRQ_HANDLED, m))"

definition tegra_wdt_do_tasklet :: "machine \<Rightarrow> machine" where
  "tegra_wdt_do_tasklet m =
    dev_info ''Watchdog interrupt received, system will reset soon if no ping arrives\<newline>'' m"

subsection \<open>Tegra 3: enable, disable, ping, interrupt\<close>

definition tegra_wdt_ping_3x :: "machine \<Rightarrow> machine" where
  "tegra_wdt_ping_3x m = writel WDT_CMD_START_COUNTER (Wdt_source, WDT_CMD) m"

text \<open>
  \<open>int_base\<close> is a null pointer until the probe has mapped it; \<open>int_base_mapped\<close>
  says whether it has.
\<close>

definition tegra_wdt_int_priority :: "config \<Rightarrow> bool \<Rightarrow> machine \<Rightarrow> machine" where
  "tegra_wdt_int_priority cfg int_base_mapped m =
    (if \<not> int_base_mapped then m
     else (let val = readl (Int_base, ICTLR_IEP_CLASS) m;
               val = val AND NOT (push_bit (unat ((of_nat (INT_WDT_CPU cfg) :: u32) AND 31)) 1)
           in writel val (Int_base, ICTLR_IEP_CLASS) m))"

definition tegra_wdt_enable_3x :: "config \<Rightarrow> machine \<Rightarrow> machine" where
  "tegra_wdt_enable_3x cfg m =
    (let m = writel TIMER_PCR_INTR (Wdt_timer, TIMER_PCR) m;
         val = (timeout m * 1000000) div 4;
         val = val OR (TIMER_EN OR TIMER_PERIODIC);
         m = writel val (Wdt_timer, TIMER_PTV) m;
         m = writel WDT_CMD_START_COUNTER (Wdt_source, WDT_CMD) m;
         val = tmrsrc m OR WDT_CFG_PERIOD OR WDT_CFG_PMC2CAR_RST_EN;
         val = (if fiq_debugger cfg then val OR WDT_CFG_FIQ_INT_EN else val)
     in writel val (Wdt_source, WDT_CFG) m)"

definition tegra_wdt_disable_3x :: "machine \<Rightarrow> machine" where
  "tegra_wdt_disable_3x m =
    (let m = writel WDT_UNLOCK_PATTERN (Wdt_source, WDT_UNLOCK) m;
         m = writel WDT_CMD_DISABLE_COUNTER (Wdt_source, WDT_CMD) m
     in writel 0 (Wdt_timer, TIMER_PTV) m)"

text \<open>
  \<open>WARN_ON_ONCE\<close> keeps one static flag for its call site, shared by all instances:
  the warning is printed the first time the condition holds and never again.  The
  flag is passed in and returned.
\<close>

definition tegra_wdt_interrupt_instance :: "bool \<Rightarrow> machine \<Rightarrow> bool \<times> machine" where
  "tegra_wdt_interrupt_instance warned m =
    (let (warned, m) =
           (if \<not> (status m AND WDT_KERNEL_HEARTBEAT \<noteq> 0) \<and> \<not> warned
            then (True, emit Warn_on_once m) else (warned, m))
     in (warned, if status m AND WDT_KERNEL_HEARTBEAT \<noteq> 0 then tegra_wdt_ping_3x m else m))"

text \<open>
  The shared handler walks the global array \<open>tegra_wdt[MAX_NR_CPU_WDT]\<close>; an empty
  slot is \<open>None\<close>.  \<open>tegra_wdt_interrupt_slot\<close> is the body of the loop and
  \<open>tegra_wdt_interrupt_scan\<close> the loop over the slots.
\<close>

definition tegra_wdt_interrupt_slot :: "bool \<Rightarrow> machine option \<Rightarrow> bool \<times> machine option" where
  "tegra_wdt_interrupt_slot warned slot =
    (case slot of
       None \<Rightarrow> (warned, None)
     | Some m \<Rightarrow>
         (let st = readl (Wdt_source, WDT_STATUS) m
          in if status m AND WDT_ENABLED \<noteq> 0 \<and> st AND WDT_INTR_STAT \<noteq> 0
             then (let (warned, m) = tegra_wdt_interrupt_instance warned m in (warned, Some m))
             else (warned, Some m)))"

fun tegra_wdt_interrupt_scan :: "bool \<Rightarrow> machine option list \<Rightarrow> bool \<times> machine option list" where
  "tegra_wdt_interrupt_scan warned [] = (warned, [])"
| "tegra_wdt_interrupt_scan warned (slot # slots) =
    (let (warned, slot') = tegra_wdt_interrupt_slot warned slot;
         (warned, slots') = tegra_wdt_interrupt_scan warned slots
     in (warned, slot' # slots'))"

definition tegra_wdt_interrupt_3x ::
  "bool \<Rightarrow> machine option list \<Rightarrow> irqreturn \<times> bool \<times> machine option list" where
  "tegra_wdt_interrupt_3x warned arr =
    (let (warned, slots) = tegra_wdt_interrupt_scan warned (take MAX_NR_CPU_WDT arr)
     in (IRQ_HANDLED, warned, slots @ drop MAX_NR_CPU_WDT arr))"

subsection \<open>The body selected by the build\<close>

definition tegra_wdt_enable :: "config \<Rightarrow> machine \<Rightarrow> machine" where
  "tegra_wdt_enable cfg m =
    (case soc cfg of Tegra2x \<Rightarrow> tegra_wdt_enable_2x m | Tegra3x \<Rightarrow> tegra_wdt_enable_3x cfg m)"

definition tegra_wdt_disable :: "config \<Rightarrow> machine \<Rightarrow> machine" where
  "tegra_wdt_disable cfg m =
    (case soc cfg of Tegra2x \<Rightarrow> tegra_wdt_disable_2x m | Tegra3x \<Rightarrow> tegra_wdt_disable_3x m)"

definition tegra_wdt_ping :: "config \<Rightarrow> machine \<Rightarrow> machine" where
  "tegra_wdt_ping cfg m =
    (case soc cfg of Tegra2x \<Rightarrow> tegra_wdt_ping_2x m | Tegra3x \<Rightarrow> tegra_wdt_ping_3x m)"

subsection \<open>The character device: open, release, ioctl, write\<close>

datatype errno = EBUSY | EFAULT | EINVAL | ENOTTY | ENODEV | ENOENT | ENOMEM

text \<open>
  Modelled from the spec: \<open>nonseekable_open\<close> (fs/open.c, not among the sources); a
  successful \<open>open\<close> answers 0.
\<close>

definition nonseekable_open :: int where
  "nonseekable_open = 0"

definition tegra_wdt_open :: "config \<Rightarrow> machine \<Rightarrow> (errno + int) \<times> machine" where
  "tegra_wdt_open cfg m =
    (let (old, u) = test_and_set_bit 1 (users m);
         m = m\<lparr>users := u\<rparr>
     in if old then (Inl EBUSY, m)
        else (let m = m\<lparr>way_out_ok := 0\<rparr>;
                  m = m\<lparr>status := status m OR WDT_ENABLED\<rparr>;
                  m = m\<lparr>timeout := heartbeat cfg\<rparr>;
                  m = tegra_wdt_enable cfg m
              in (Inr nonseekable_open, m)))"

definition tegra_wdt_release :: "config \<Rightarrow> machine \<Rightarrow> (errno + int) \<times> machine" where
  "tegra_wdt_release cfg m =
    (let m = (if status m AND WDT_ENABLED \<noteq> 0 \<and> \<not> nowayout cfg
              then (if way_out_ok m \<noteq> 0
                    then (let m = tegra_wdt_disable cfg m
                          in m\<lparr>status := WDT_DISABLED\<rparr>)
                    else dev_info ''No Magic Close received, watchdog not disabled!\<newline>'' m)
              else if nowayout cfg
              then dev_info ''No way out is enabled, watchdog not disabled!\<newline>'' m
              else m);
         m = m\<lparr>users := clear_bit 1 (users m)\<rparr>
     in (Inr 0, m))"

text \<open>
  \<open>write\<close> reads one byte of the caller's buffer with \<open>get_user\<close>.
  Modelled from the spec: \<open>get_user\<close> (asm/uaccess.h, not among the sources) on user
  memory as a partial map from addresses to bytes; at an address outside its domain
  the copy fails and \<open>get_user\<close> answers nonzero.
\<close>

type_synonym umem = "u32 \<rightharpoonup> u8"

definition tegra_wdt_write :: "config \<Rightarrow> umem \<Rightarrow> u32 \<Rightarrow> u32 \<Rightarrow> machine \<Rightarrow> (errno + u32) \<times> machine" where
  "tegra_wdt_write cfg um data len m =
    (if len \<noteq> 0
     then (let m = tegra_wdt_ping cfg m
           in case um (data + len - 1) of
                None \<Rightarrow> (Inl EFAULT, m)
              | Some c \<Rightarrow> (Inr len, m\<lparr>way_out_ok := (if 0x56 = c then 1 else 0)\<rparr>))
     else (Inr len, m))"

text \<open>
  \<open>ioctl\<close> switches on the command number; the numbers themselves are in
  linux/watchdog.h, so the commands are an enumeration with one constructor for every
  number the switch does not list.  The access to the caller's memory at \<open>arg\<close> is a
  parameter, given by what each primitive does there: the \<open>int\<close> that \<open>get_user\<close>
  reads (\<open>None\<close> when it faults), whether \<open>put_user\<close> succeeds, and how many bytes
  \<open>copy_to_user\<close> leaves uncopied.
\<close>

datatype ioctl_cmd =
    WDIOC_GETSUPPORT
  | WDIOC_GETSTATUS
  | WDIOC_GETBOOTSTATUS
  | WDIOC_KEEPALIVE
  | WDIOC_SETTIMEOUT
  | WDIOC_GETTIMEOUT
  | WDIOC_SETOPTIONS
  | WDIOC_unlisted u32

record uaccess =
  get_int :: "u32 option"
  put_ok :: bool
  copy_left :: nat

record watchdog_info =
  identity :: string
  options :: u32
  firmware_version :: u32

text \<open>What the call stored in the caller's memory.\<close>

datatype ustore = No_store | Put_int u32 | Copy_info watchdog_info nat

text \<open>
  Modelled from the spec: the capability flag and the two option bits of
  linux/watchdog.h (not among the sources), with that header's values.  No general
  theorem below depends on the values.
\<close>

definition WDIOF_SETTIMEOUT :: u32 where "WDIOF_SETTIMEOUT = 0x0080"
definition WDIOS_DISABLECARD :: u32 where "WDIOS_DISABLECARD = 0x0001"
definition WDIOS_ENABLECARD :: u32 where "WDIOS_ENABLECARD = 0x0002"

definition ident :: watchdog_info where
  "ident = \<lparr>identity = ''Tegra Watchdog'', options = WDIOF_SETTIMEOUT, firmware_version = 0\<rparr>"

text \<open>
  Modelled from the spec: \<open>put_user\<close> (asm/uaccess.h, not among the sources) stores
  the value and answers 0, or stores nothing and answers \<open>-EFAULT\<close>.  What
  \<open>copy_to_user\<close> answers, the number of bytes it left uncopied, is the parameter
  \<open>copy_left\<close>; the driver returns that number as it is.
\<close>

definition put_user :: "u32 \<Rightarrow> uaccess \<Rightarrow> (errno + int) \<times> ustore" where
  "put_user x ua = (if put_ok ua then (Inr 0, Put_int x) else (Inl EFAULT, No_store))"

definition copy_to_user :: "watchdog_info \<Rightarrow> uaccess \<Rightarrow> (errno + int) \<times> ustore" where
  "copy_to_user x ua = (Inr (int (copy_left ua)), Copy_info x (copy_left ua))"

text \<open>
  Modelled from the spec: the \<open>clamp\<close> macro (linux/kernel.h, not among the sources) on
  \<open>int\<close>: a value below the lower bound becomes the lower bound, then a value above
  the upper bound becomes the upper bound.
\<close>

definition clamp :: "u32 \<Rightarrow> u32 \<Rightarrow> u32 \<Rightarrow> u32" where
  "clamp val lo hi =
    (let v = (if sint val < sint lo then lo else val)
     in if sint v > sint hi then hi else v)"

definition tegra_wdt_ioctl ::
  "config \<Rightarrow> ioctl_cmd \<Rightarrow> uaccess \<Rightarrow> machine \<Rightarrow> ((errno + int) \<times> ustore) \<times> machine" where
  "tegra_wdt_ioctl cfg cmd ua m =
    (case cmd of
       WDIOC_GETSUPPORT \<Rightarrow> (copy_to_user ident ua, m)
     | WDIOC_GETSTATUS \<Rightarrow> (put_user 0 ua, m)
     | WDIOC_GETBOOTSTATUS \<Rightarrow> (put_user 0 ua, m)
     | WDIOC_KEEPALIVE \<Rightarrow> ((Inr 0, No_store), tegra_wdt_ping cfg m)
     | WDIOC_SETTIMEOUT \<Rightarrow>
         (case get_int ua of
            None \<Rightarrow> ((Inl EFAULT, No_store), m)
          | Some new_timeout \<Rightarrow>
              (let m = tegra_wdt_disable cfg m;
                   m = m\<lparr>timeout := clamp new_timeout MIN_WDT_PERIOD MAX_WDT_PERIOD\<rparr>;
                   m = tegra_wdt_enable cfg m
               in (put_user (timeout m) ua, m)))
     | WDIOC_GETTIMEOUT \<Rightarrow> (put_user (timeout m) ua, m)
     | WDIOC_SETOPTIONS \<Rightarrow>
         (case get_int ua of
            None \<Rightarrow> ((Inl EFAULT, No_store), m)
          | Some option \<Rightarrow>
              (if option AND WDIOS_DISABLECARD \<noteq> 0 \<and> \<not> nowayout cfg
               then (let m = m\<lparr>status := status m AND NOT WDT_ENABLED\<rparr>;
                         m = m\<lparr>status := status m OR WDT_DISABLED\<rparr>;
                         m = tegra_wdt_disable cfg m
                     in ((Inr 0, No_store), m))
               else if option AND WDIOS_ENABLECARD \<noteq> 0
               then (let m = tegra_wdt_enable cfg m;
                         m = m\<lparr>status := status m OR WDT_ENABLED\<rparr>;
                         m = m\<lparr>status := status m AND NOT WDT_DISABLED\<rparr>
                     in ((Inr 0, No_store), m))
               else ((Inl EINVAL, No_store), m)))
     | WDIOC_unlisted _ \<Rightarrow> ((Inl ENOTTY, No_store), m))"

subsection \<open>Reboot notifier, suspend and resume\<close>

datatype reboot_code = SYS_DOWN | SYS_HALT | SYS_POWER_OFF | SYS_unlisted u32

datatype notify_ret = NOTIFY_DONE

definition tegra_wdt_notify :: "config \<Rightarrow> reboot_code \<Rightarrow> machine \<Rightarrow> notify_ret \<times> machine" where
  "tegra_wdt_notify cfg code m =
    (let m = (if code = SYS_DOWN \<or> code = SYS_HALT then tegra_wdt_disable cfg m else m)
     in (NOTIFY_DONE, m))"

definition tegra_wdt_suspend :: "config \<Rightarrow> machine \<Rightarrow> int \<times> machine" where
  "tegra_wdt_suspend cfg m = (0, tegra_wdt_disable cfg m)"

definition tegra_wdt_resume :: "config \<Rightarrow> machine \<Rightarrow> int \<times> machine" where
  "tegra_wdt_resume cfg m =
    (let m = (if status m AND WDT_ENABLED \<noteq> 0 then tegra_wdt_enable cfg m else m)
     in (0, m))"

subsection \<open>Probe\<close>

text \<open>
  The platform device: its id, which of its resources exist (memory 0, 1 and 2, and
  the start of the interrupt resource), and what each kernel service the probe calls
  answers.  Return values of \<open>request_irq\<close>, \<open>register_reboot_notifier\<close> and
  \<open>misc_register\<close> are C \<open>int\<close>s, zero for success.
\<close>

record pdev =
  pdev_id :: u32
  res_src :: bool
  res_wdt :: bool
  res_irq :: "u32 option"
  res_int_base :: bool

record kenv =
  kzalloc_ok :: bool
  request_src_ok :: bool
  request_wdt_ok :: bool
  ioremap_src_ok :: bool
  ioremap_wdt_ok :: bool
  request_int_base_ok :: bool
  ioremap_int_base_ok :: bool
  request_irq_ret :: u32
  register_reboot_notifier_ret :: u32
  misc_register_ret :: u32

text \<open>
  How the probe ends: an early \<open>return -E...\<close>; the \<open>fail:\<close> label, which frees the
  instance and returns \<open>ret\<close> as an error number (\<open>Probe_fail (Inl e)\<close>) or as the
  \<open>int\<close> a kernel service answered or that \<open>ret\<close> still held (\<open>Probe_fail (Inr r)\<close>);
  a null pointer dereference (\<open>res_int_base->start\<close> when the FIQ build finds no third
  memory resource on a device with a nonzero id); or \<open>return 0\<close> with the instance
  registered.  After any exit but the last the instance does not exist; the machine
  returned with it only tells which kernel calls were made.  The store
  \<open>tegra_wdt[pdev->id] = wdt\<close> of the Tegra 3 build is the caller's: it puts the
  machine into the array that \<open>tegra_wdt_interrupt_3x\<close> walks.
\<close>

datatype probe_exit = Probe_return errno | Probe_fail "errno + u32" | Probe_oops | Probe_done

definition dev_err :: "string \<Rightarrow> machine \<Rightarrow> machine" where
  "dev_err msg m = emit (Dev_err msg) m"

text \<open>\<open>kzalloc\<close>: every field of the new instance is zero.\<close>

definition kzalloc :: "(ioaddr \<Rightarrow> u32) \<Rightarrow> machine" where
  "kzalloc hw =
    \<lparr>users = 0, tmrsrc = 0, timeout = 0, status = 0, way_out_ok = 0, irq = 0,
     irq_counter = 0, io = hw, trace = []\<rparr>"

definition is_heartbeat_wdt :: "config \<Rightarrow> pdev \<Rightarrow> bool" where
  "is_heartbeat_wdt cfg pd =
    (case soc cfg of Tegra2x \<Rightarrow> True | Tegra3x \<Rightarrow> \<not> (pdev_id pd \<noteq> 0))"

text \<open>The tail of the probe, from \<open>wdt->res_src = res_src\<close> on.\<close>

definition probe_register :: "config \<Rightarrow> pdev \<Rightarrow> kenv \<Rightarrow> machine \<Rightarrow> probe_exit \<times> machine" where
  "probe_register cfg pd ke m =
    (let m = m\<lparr>status := WDT_DISABLED\<rparr>
     in if register_reboot_notifier_ret ke \<noteq> 0
        then (Probe_fail (Inr (register_reboot_notifier_ret ke)),
              dev_err ''cannot register reboot notifier\<newline>'' m)
        else if misc_register_ret ke \<noteq> 0
        then (Probe_fail (Inr (misc_register_ret ke)),
              dev_err ''failed to register misc device\<newline>'' m)
        else (let m = (if enable_heartbeat cfg \<and> is_heartbeat_wdt cfg pd
                       then (let m = m\<lparr>status := WDT_ENABLED OR WDT_KERNEL_HEARTBEAT\<rparr>;
                                 m = m\<lparr>timeout := heartbeat cfg\<rparr>;
                                 m = m\<lparr>users := set_bit 1 (users m)\<rparr>;
                                 m = tegra_wdt_enable cfg m
                             in pr_info ''WDT kernel heartbeat enabled on probe\<newline>'' m)
                       else m)
              in (Probe_done, dev_info ''tegra_wdt_probe done\<newline>'' m)))"

text \<open>The interrupt part, entered when \<open>res_irq != NULL\<close>.\<close>

definition probe_irq :: "config \<Rightarrow> pdev \<Rightarrow> kenv \<Rightarrow> u32 \<Rightarrow> machine \<Rightarrow> probe_exit \<times> machine" where
  "probe_irq cfg pd ke irq_start m =
    (if fiq_debugger cfg \<and> \<not> res_int_base pd then (Probe_oops, m)
     else if fiq_debugger cfg \<and> \<not> request_int_base_ok ke then (Probe_fail (Inr 0), m)
     else if fiq_debugger cfg \<and> \<not> ioremap_int_base_ok ke then (Probe_fail (Inr 0), m)
     else (let m = (if fiq_debugger cfg then tegra_wdt_int_priority cfg True m else m);
               m = m\<lparr>irq := - 1\<rparr>
           in if request_irq_ret ke \<noteq> 0
              then (Probe_fail (Inr (request_irq_ret ke)),
                    dev_err ''unable to configure IRQ\<newline>'' m)
              else probe_register cfg pd ke (m\<lparr>irq := irq_start\<rparr>)))"

text \<open>
  From the first register access on: the Tegra 2 reset-cause message, the
  unconditional disable, the interrupt acknowledge and, on Tegra 3, the start command.
\<close>

definition probe_hw :: "config \<Rightarrow> pdev \<Rightarrow> kenv \<Rightarrow> machine \<Rightarrow> probe_exit \<times> machine" where
  "probe_hw cfg pd ke m =
    (let m = (if soc cfg = Tegra2x \<and> readl (Wdt_source, 0) m AND push_bit 12 1 \<noteq> 0
              then dev_info ''last reset due to watchdog timeout\<newline>'' m else m);
         m = tegra_wdt_disable cfg m;
         m = writel TIMER_PCR_INTR (Wdt_timer, TIMER_PCR) m;
         m = (if soc cfg \<noteq> Tegra2x
              then writel WDT_CMD_START_COUNTER (Wdt_source, WDT_CMD) m else m)
     in case res_irq pd of
          Some irq_start \<Rightarrow> probe_irq cfg pd ke irq_start m
        | None \<Rightarrow> probe_register cfg pd ke m)"

definition tegra_wdt_probe :: "config \<Rightarrow> pdev \<Rightarrow> kenv \<Rightarrow> (ioaddr \<Rightarrow> u32) \<Rightarrow> probe_exit \<times> machine" where
  "tegra_wdt_probe cfg pd ke hw =
    (let m = kzalloc hw
     in if sint (pdev_id pd) < - 1 \<and> sint (pdev_id pd) > 3
        then (Probe_return ENODEV, dev_err ''only IDs 3:0 supported\<newline>'' m)
        else if \<not> res_src pd \<or> \<not> res_wdt pd \<or> (\<not> (pdev_id pd \<noteq> 0) \<and> res_irq pd = None)
        then (Probe_return ENOENT, dev_err ''incorrect resources\<newline>'' m)
        else if fiq_debugger cfg \<and> \<not> (pdev_id pd \<noteq> 0) \<and> \<not> res_int_base pd
        then (Probe_return ENOENT, dev_err ''FIQ_DBG: INT base not defined\<newline>'' m)
        else if pdev_id pd = - 1 \<and> res_irq pd = None
        then (Probe_return ENOENT, dev_err ''incorrect irq\<newline>'' m)
        else if \<not> kzalloc_ok ke
        then (Probe_return ENOMEM, dev_err ''out of memory\<newline>'' m)
        else if \<not> request_src_ok ke \<or> \<not> request_wdt_ok ke
        then (Probe_fail (Inl EBUSY), dev_err ''unable to request memory resources\<newline>'' m)
        else (let m = m\<lparr>tmrsrc := word_of_int (sint (TMR_SRC_START + pdev_id pd) smod 10)\<rparr>
              in if \<not> ioremap_src_ok ke \<or> \<not> ioremap_wdt_ok ke
                 then (Probe_fail (Inl ENOMEM), dev_err ''unable to map registers\<newline>'' m)
                 else probe_hw cfg pd ke m))"

text \<open>\<open>remove\<close> disables the hardware; everything after that releases the instance.\<close>

definition tegra_wdt_remove :: "config \<Rightarrow> machine \<Rightarrow> int \<times> machine" where
  "tegra_wdt_remove cfg m = (0, tegra_wdt_disable cfg m)"

subsection \<open>When the hardware counts as armed\<close>

text \<open>
  Read off the registers as \<open>tegra_wdt_enable\<close> and \<open>tegra_wdt_disable\<close> leave them.
  Tegra 2: the reset source has \<open>WDT_EN\<close> and the timer has \<open>TIMER_EN\<close>.  Tegra 3: the
  timer has \<open>TIMER_EN\<close> and the last command given to the counter is
  \<open>WDT_CMD_START_COUNTER\<close>.
\<close>

definition hw_armed :: "config \<Rightarrow> machine \<Rightarrow> bool" where
  "hw_armed cfg m =
    (case soc cfg of
       Tegra2x \<Rightarrow> io m (Wdt_source, 0) AND WDT_EN \<noteq> 0 \<and> io m (Wdt_timer, TIMER_PTV) AND TIMER_EN \<noteq> 0
     | Tegra3x \<Rightarrow> io m (Wdt_timer, TIMER_PTV) AND TIMER_EN \<noteq> 0 \<and>
                  io m (Wdt_source, WDT_CMD) = WDT_CMD_START_COUNTER)"

text \<open>
  The register write that restarts the countdown: on Tegra 2 the reload of the timer's
  period register, on Tegra 3 the start command.  An operation has pinged when that
  write is among the kernel calls it added to the trace.
\<close>

definition reload_write :: "config \<Rightarrow> machine \<Rightarrow> kevent" where
  "reload_write cfg m =
    (case soc cfg of
       Tegra2x \<Rightarrow> Writel (timeout m * 1000000 div 2 OR (TIMER_EN OR TIMER_PERIODIC)) (Wdt_timer, TIMER_PTV)
     | Tegra3x \<Rightarrow> Writel WDT_CMD_START_COUNTER (Wdt_source, WDT_CMD))"

definition new_events :: "machine \<Rightarrow> machine \<Rightarrow> kevent list" where
  "new_events m m' = drop (length (trace m)) (trace m')"

definition pinged :: "config \<Rightarrow> machine \<Rightarrow> machine \<Rightarrow> bool" where
  "pinged cfg m m' \<longleftrightarrow> reload_write cfg m \<in> set (new_events m m')"

definition wdt_enabled :: "machine \<Rightarrow> bool" where
  "wdt_enabled m \<longleftrightarrow> status m AND WDT_ENABLED \<noteq> 0"

definition timeout_in_range :: "machine \<Rightarrow> bool" where
  "timeout_in_range m \<longleftrightarrow> 5 \<le> sint (timeout m) \<and> sint (timeout m) \<le> 1000"

subsection \<open>Sequences of file operations\<close>

datatype fop =
    Open
  | Write umem u32 u32
  | Ioctl ioctl_cmd uaccess
  | Release

fun fop_step :: "config \<Rightarrow> machine \<Rightarrow> fop \<Rightarrow> machine" where
  "fop_step cfg m Open = snd (tegra_wdt_open cfg m)"
| "fop_step cfg m (Write um data len) = snd (tegra_wdt_write cfg um data len m)"
| "fop_step cfg m (Ioctl cmd ua) = snd (tegra_wdt_ioctl cfg cmd ua m)"
| "fop_step cfg m Release = snd (tegra_wdt_release cfg m)"

definition run :: "config \<Rightarrow> fop list \<Rightarrow> machine \<Rightarrow> machine" where
  "run cfg ops m = foldl (fop_step cfg) m ops"

fun is_write :: "fop \<Rightarrow> bool" where
  "is_write (Write um data len) = True"
| "is_write _ = False"

subsection \<open>Reachable states of one instance\<close>

text \<open>
  An instance starts with a successful probe.  The file operations \<open>write\<close>, \<open>ioctl\<close>
  and \<open>release\<close> are only called on an open file, which exists from a successful
  \<open>open\<close> to its \<open>release\<close>; the flag of \<open>reach\<close> says whether there is one.
  Interrupts, the tasklet, the reboot notifier, suspend and resume may come at any
  time, and on Tegra 3 the hardware may change the content of its status register.
\<close>

inductive reach :: "config \<Rightarrow> bool \<Rightarrow> machine \<Rightarrow> bool" for cfg :: config where
  by_probe: "tegra_wdt_probe cfg pd ke hw = (Probe_done, m) \<Longrightarrow> reach cfg False m"
| by_open: "reach cfg s m \<Longrightarrow> tegra_wdt_open cfg m = (Inr r, m') \<Longrightarrow> reach cfg True m'"
| by_open_busy: "reach cfg s m \<Longrightarrow> tegra_wdt_open cfg m = (Inl e, m') \<Longrightarrow> reach cfg s m'"
| by_write: "reach cfg True m \<Longrightarrow> reach cfg True (snd (tegra_wdt_write cfg um data len m))"
| by_ioctl: "reach cfg True m \<Longrightarrow> reach cfg True (snd (tegra_wdt_ioctl cfg cmd ua m))"
| by_release: "reach cfg True m \<Longrightarrow> reach cfg False (snd (tegra_wdt_release cfg m))"
| by_interrupt_2x: "reach cfg s m \<Longrightarrow> soc cfg = Tegra2x \<Longrightarrow>
     reach cfg s (snd (tegra_wdt_interrupt_2x n m))"
| by_tasklet: "reach cfg s m \<Longrightarrow> soc cfg = Tegra2x \<Longrightarrow> reach cfg s (tegra_wdt_do_tasklet m)"
| by_interrupt_3x: "reach cfg s m \<Longrightarrow> soc cfg = Tegra3x \<Longrightarrow>
     tegra_wdt_interrupt_slot warned (Some m) = (warned', Some m') \<Longrightarrow> reach cfg s m'"
| by_hw_status: "reach cfg s m \<Longrightarrow> soc cfg = Tegra3x \<Longrightarrow>
     reach cfg s (m\<lparr>io := (io m)((Wdt_source, WDT_STATUS) := v)\<rparr>)"
| by_notify: "reach cfg s m \<Longrightarrow> reach cfg s (snd (tegra_wdt_notify cfg code m))"
| by_suspend: "reach cfg s m \<Longrightarrow> reach cfg s (snd (tegra_wdt_suspend cfg m))"
| by_resume: "reach cfg s m \<Longrightarrow> reach cfg s (snd (tegra_wdt_resume cfg m))"

definition never_enabled :: "config \<Rightarrow> machine \<Rightarrow> bool" where
  "never_enabled cfg m \<longleftrightarrow>
     \<not> hw_armed cfg m \<and> \<not> wdt_enabled m \<and> status m AND WDT_KERNEL_HEARTBEAT = 0 \<and>
     \<not> bit (users m) 1"

definition reach_inv :: "config \<Rightarrow> bool \<Rightarrow> machine \<Rightarrow> bool" where
  "reach_inv cfg s m \<longleftrightarrow>
     (s \<longrightarrow> bit (users m) 1) \<and> (timeout_in_range m \<or> never_enabled cfg m)"

text \<open>
  Two more facts of the reachable states.  On Tegra 3, whenever the timer is enabled
  the last command given to the counter is the start command.  An instance with
  \<open>WDT_KERNEL_HEARTBEAT\<close> is enabled, holds the users flag and has no open file.
\<close>

definition cmd_follows_timer :: "machine \<Rightarrow> bool" where
  "cmd_follows_timer m \<longleftrightarrow>
     (io m (Wdt_timer, TIMER_PTV) AND TIMER_EN \<noteq> 0 \<longrightarrow>
      io m (Wdt_source, WDT_CMD) = WDT_CMD_START_COUNTER)"

definition heartbeat_owned :: "bool \<Rightarrow> machine \<Rightarrow> bool" where
  "heartbeat_owned s m \<longleftrightarrow>
     (status m AND WDT_KERNEL_HEARTBEAT \<noteq> 0 \<longrightarrow> wdt_enabled m \<and> bit (users m) 1 \<and> \<not> s)"

subsection \<open>Concrete configurations for running the model\<close>

text \<open>
  A Tegra 3 build without heartbeat and FIQ debugger (\<open>INT_WDT_CPU\<close> is then unused),
  the device \<open>tegra_wdt.1\<close> with both register ranges and no interrupt, a kernel
  whose services all succeed, and registers that read zero before the probe.
\<close>

definition colibri_t30 :: config where
  "colibri_t30 =
    \<lparr>soc = Tegra3x, fiq_debugger = False, enable_heartbeat = False,
     heartbeat = WDT_DEFAULT_TIME, nowayout = False, INT_WDT_CPU = 0\<rparr>"

definition wdt1_device :: pdev where
  "wdt1_device =
    \<lparr>pdev_id = 1, res_src = True, res_wdt = True, res_irq = None, res_int_base = False\<rparr>"

definition kernel_ok :: kenv where
  "kernel_ok =
    \<lparr>kzalloc_ok = True, request_src_ok = True, request_wdt_ok = True, ioremap_src_ok = True,
     ioremap_wdt_ok = True, request_int_base_ok = True, ioremap_int_base_ok = True,
     request_irq_ret = 0, register_reboot_notifier_ret = 0, misc_register_ret = 0\<rparr>"

definition hw_reset :: "ioaddr \<Rightarrow> u32" where
  "hw_reset = (\<lambda>a. 0)"

text \<open>
  The device \<open>tegra_wdt.0\<close>, which has an interrupt and is the heartbeat instance of a
  heartbeat build, and the same build for Tegra 2.
\<close>

definition wdt0_device :: pdev where
  "wdt0_device =
    \<lparr>pdev_id = 0, res_src = True, res_wdt = True, res_irq = Some 155, res_int_base = False\<rparr>"

definition tegra2_build :: config where
  "tegra2_build = colibri_t30\<lparr>soc := Tegra2x\<rparr>"

definition heartbeat_probed :: "config \<Rightarrow> machine" where
  "heartbeat_probed cfg = snd (tegra_wdt_probe cfg wdt0_device kernel_ok hw_reset)"

text \<open>
  The heartbeat builds, and an instance whose status register shows the interrupt of
  an expired timer.
\<close>

definition heartbeat_t30 :: config where
  "heartbeat_t30 = colibri_t30\<lparr>enable_heartbeat := True\<rparr>"

definition heartbeat_t20 :: config where
  "heartbeat_t20 = tegra2_build\<lparr>enable_heartbeat := True\<rparr>"

definition expired :: "machine \<Rightarrow> machine" where
  "expired m = m\<lparr>io := (io m)((Wdt_source, WDT_STATUS) := WDT_INTR_STAT)\<rparr>"

definition probed :: "config \<Rightarrow> machine" where
  "probed cfg = snd (tegra_wdt_probe cfg wdt1_device kernel_ok hw_reset)"

definition opened :: "config \<Rightarrow> machine" where
  "opened cfg = snd (tegra_wdt_open cfg (probed cfg))"

section \<open>Properties\<close>

subsection \<open>Auxiliary facts\<close>

lemma test_enabled_iff: "(w AND WDT_ENABLED \<noteq> 0) = bit (w::u32) 1"
  using and_exp_eq_0_iff_not_bit [of w 1] by (simp add: WDT_ENABLED_def)

lemma test_heartbeat_iff: "(w AND WDT_KERNEL_HEARTBEAT \<noteq> 0) = bit (w::u32) 2"
  using and_exp_eq_0_iff_not_bit [of w 2] by (simp add: WDT_KERNEL_HEARTBEAT_def)

lemma test_disabled_iff: "(w AND WDT_DISABLED \<noteq> 0) = bit (w::u32) 0"
  using and_exp_eq_0_iff_not_bit [of w 0] by (simp add: WDT_DISABLED_def)

lemma test_timer_en_iff: "(w AND TIMER_EN \<noteq> 0) = bit (w::u32) 31"
  using and_exp_eq_0_iff_not_bit [of w 31] by (simp add: TIMER_EN_def)

lemma test_wdt_en_iff: "(w AND WDT_EN \<noteq> 0) = bit (w::u32) 5"
  using and_exp_eq_0_iff_not_bit [of w 5] by (simp add: WDT_EN_def)

lemma emit_fields [simp]:
  "users (emit e m) = users m" "tmrsrc (emit e m) = tmrsrc m" "timeout (emit e m) = timeout m"
  "status (emit e m) = status m" "way_out_ok (emit e m) = way_out_ok m" "irq (emit e m) = irq m"
  "irq_counter (emit e m) = irq_counter m" "io (emit e m) = io m"
  "trace (emit e m) = trace m @ [e]"
  by (simp_all add: emit_def)

lemma writel_fields [simp]:
  "users (writel v a m) = users m" "tmrsrc (writel v a m) = tmrsrc m"
  "timeout (writel v a m) = timeout m"
  "status (writel v a m) = status m" "way_out_ok (writel v a m) = way_out_ok m"
  "irq (writel v a m) = irq m"
  "irq_counter (writel v a m) = irq_counter m" "io (writel v a m) = (io m)(a := v)"
  "trace (writel v a m) = trace m @ [Writel v a]"
  by (simp_all add: writel_def)

lemma enable_2x_fields [simp]:
  "users (tegra_wdt_enable_2x m) = users m" "tmrsrc (tegra_wdt_enable_2x m) = tmrsrc m"
  "timeout (tegra_wdt_enable_2x m) = timeout m"
  "status (tegra_wdt_enable_2x m) = status m" "way_out_ok (tegra_wdt_enable_2x m) = way_out_ok m"
  "irq (tegra_wdt_enable_2x m) = irq m"
  "irq_counter (tegra_wdt_enable_2x m) = irq_counter m"
  by (simp_all add: tegra_wdt_enable_2x_def Let_def)

lemma enable_2x_io:
  "io (tegra_wdt_enable_2x m) =
     (io m)((Wdt_timer, TIMER_PTV) := timeout m * 1000000 div 2 OR (TIMER_EN OR TIMER_PERIODIC),
            (Wdt_source, 0) := WDT_EN OR WDT_SEL_TMR1 OR WDT_SYS_RST)"
  by (simp add: tegra_wdt_enable_2x_def Let_def)

lemma enable_2x_trace:
  "trace (tegra_wdt_enable_2x m) = trace m @
     [Writel (timeout m * 1000000 div 2 OR (TIMER_EN OR TIMER_PERIODIC)) (Wdt_timer, TIMER_PTV),
      Writel (WDT_EN OR WDT_SEL_TMR1 OR WDT_SYS_RST) (Wdt_source, 0)]"
  by (simp add: tegra_wdt_enable_2x_def Let_def)

lemma bit_timer_en_or: "bit (v OR (TIMER_EN OR TIMER_PERIODIC)) 31"
  by (simp add: bit_or_iff TIMER_EN_def TIMER_PERIODIC_def bit_push_bit_iff)

lemma bit_src_val: "bit (WDT_EN OR WDT_SEL_TMR1 OR WDT_SYS_RST) 5"
  by (simp add: bit_or_iff WDT_EN_def bit_push_bit_iff)

lemma disable_2x_fields [simp]:
  "users (tegra_wdt_disable_2x m) = users m" "tmrsrc (tegra_wdt_disable_2x m) = tmrsrc m"
  "timeout (tegra_wdt_disable_2x m) = timeout m"
  "status (tegra_wdt_disable_2x m) = status m" "way_out_ok (tegra_wdt_disable_2x m) = way_out_ok m"
  "irq (tegra_wdt_disable_2x m) = irq m"
  "irq_counter (tegra_wdt_disable_2x m) = irq_counter m"
  by (simp_all add: tegra_wdt_disable_2x_def Let_def)

lemma disable_2x_io:
  "io (tegra_wdt_disable_2x m) = (io m)((Wdt_source, 0) := 0, (Wdt_timer, TIMER_PTV) := 0)"
  by (simp add: tegra_wdt_disable_2x_def Let_def)

lemma ping_2x_fields [simp]:
  "users (tegra_wdt_ping_2x m) = users m" "tmrsrc (tegra_wdt_ping_2x m) = tmrsrc m"
  "timeout (tegra_wdt_ping_2x m) = timeout m"
  "status (tegra_wdt_ping_2x m) = status m" "way_out_ok (tegra_wdt_ping_2x m) = way_out_ok m"
  "irq (tegra_wdt_ping_2x m) = irq m"
  "irq_counter (tegra_wdt_ping_2x m) = 0"
  by (simp_all add: tegra_wdt_ping_2x_def Let_def enable_irq_def)

lemma ping_2x_io:
  "io (tegra_wdt_ping_2x m) =
     (if irq_counter m \<noteq> 0
      then (io (tegra_wdt_enable_2x m))((Wdt_timer, TIMER_PCR) := TIMER_PCR_INTR)
      else io (tegra_wdt_enable_2x m))"
  by (simp add: tegra_wdt_ping_2x_def Let_def enable_irq_def)

lemma ping_2x_trace:
  "trace (tegra_wdt_ping_2x m) =
     trace (tegra_wdt_enable_2x m) @
     (if irq_counter m \<noteq> 0
      then [Writel TIMER_PCR_INTR (Wdt_timer, TIMER_PCR), Enable_irq (irq m)] else [])"
  by (simp add: tegra_wdt_ping_2x_def Let_def enable_irq_def)

lemma enable_3x_fields [simp]:
  "users (tegra_wdt_enable_3x cfg m) = users m" "tmrsrc (tegra_wdt_enable_3x cfg m) = tmrsrc m"
  "timeout (tegra_wdt_enable_3x cfg m) = timeout m"
  "status (tegra_wdt_enable_3x cfg m) = status m"
  "way_out_ok (tegra_wdt_enable_3x cfg m) = way_out_ok m"
  "irq (tegra_wdt_enable_3x cfg m) = irq m"
  "irq_counter (tegra_wdt_enable_3x cfg m) = irq_counter m"
  by (simp_all add: tegra_wdt_enable_3x_def Let_def)

lemma enable_3x_io:
  "io (tegra_wdt_enable_3x cfg m) =
     (io m)((Wdt_timer, TIMER_PCR) := TIMER_PCR_INTR,
            (Wdt_timer, TIMER_PTV) := timeout m * 1000000 div 4 OR (TIMER_EN OR TIMER_PERIODIC),
            (Wdt_source, WDT_CMD) := WDT_CMD_START_COUNTER,
            (Wdt_source, WDT_CFG) :=
               (if fiq_debugger cfg
                then (tmrsrc m OR WDT_CFG_PERIOD OR WDT_CFG_PMC2CAR_RST_EN) OR WDT_CFG_FIQ_INT_EN
                else tmrsrc m OR WDT_CFG_PERIOD OR WDT_CFG_PMC2CAR_RST_EN))"
  by (simp add: tegra_wdt_enable_3x_def Let_def)

lemma disable_3x_fields [simp]:
  "users (tegra_wdt_disable_3x m) = users m" "tmrsrc (tegra_wdt_disable_3x m) = tmrsrc m"
  "timeout (tegra_wdt_disable_3x m) = timeout m"
  "status (tegra_wdt_disable_3x m) = status m" "way_out_ok (tegra_wdt_disable_3x m) = way_out_ok m"
  "irq (tegra_wdt_disable_3x m) = irq m"
  "irq_counter (tegra_wdt_disable_3x m) = irq_counter m"
  by (simp_all add: tegra_wdt_disable_3x_def Let_def)

lemma disable_3x_io:
  "io (tegra_wdt_disable_3x m) =
     (io m)((Wdt_source, WDT_UNLOCK) := WDT_UNLOCK_PATTERN,
            (Wdt_source, WDT_CMD) := WDT_CMD_DISABLE_COUNTER,
            (Wdt_timer, TIMER_PTV) := 0)"
  by (simp add: tegra_wdt_disable_3x_def Let_def)

lemma ping_3x_fields [simp]:
  "users (tegra_wdt_ping_3x m) = users m" "tmrsrc (tegra_wdt_ping_3x m) = tmrsrc m"
  "timeout (tegra_wdt_ping_3x m) = timeout m"
  "status (tegra_wdt_ping_3x m) = status m" "way_out_ok (tegra_wdt_ping_3x m) = way_out_ok m"
  "irq (tegra_wdt_ping_3x m) = irq m"
  "irq_counter (tegra_wdt_ping_3x m) = irq_counter m"
  "io (tegra_wdt_ping_3x m) = (io m)((Wdt_source, WDT_CMD) := WDT_CMD_START_COUNTER)"
  "trace (tegra_wdt_ping_3x m) = trace m @ [Writel WDT_CMD_START_COUNTER (Wdt_source, WDT_CMD)]"
  by (simp_all add: tegra_wdt_ping_3x_def)

lemma enable_fields [simp]:
  "users (tegra_wdt_enable cfg m) = users m" "tmrsrc (tegra_wdt_enable cfg m) = tmrsrc m"
  "timeout (tegra_wdt_enable cfg m) = timeout m"
  "status (tegra_wdt_enable cfg m) = status m"
  "way_out_ok (tegra_wdt_enable cfg m) = way_out_ok m"
  "irq (tegra_wdt_enable cfg m) = irq m"
  "irq_counter (tegra_wdt_enable cfg m) = irq_counter m"
  by (simp_all add: tegra_wdt_enable_def split: soc.split)

lemma disable_fields [simp]:
  "users (tegra_wdt_disable cfg m) = users m" "tmrsrc (tegra_wdt_disable cfg m) = tmrsrc m"
  "timeout (tegra_wdt_disable cfg m) = timeout m"
  "status (tegra_wdt_disable cfg m) = status m"
  "way_out_ok (tegra_wdt_disable cfg m) = way_out_ok m"
  "irq (tegra_wdt_disable cfg m) = irq m"
  "irq_counter (tegra_wdt_disable cfg m) = irq_counter m"
  by (simp_all add: tegra_wdt_disable_def split: soc.split)

lemma ping_fields [simp]:
  "users (tegra_wdt_ping cfg m) = users m" "tmrsrc (tegra_wdt_ping cfg m) = tmrsrc m"
  "timeout (tegra_wdt_ping cfg m) = timeout m"
  "status (tegra_wdt_ping cfg m) = status m"
  "way_out_ok (tegra_wdt_ping cfg m) = way_out_ok m"
  "irq (tegra_wdt_ping cfg m) = irq m"
  by (simp_all add: tegra_wdt_ping_def split: soc.split)

text \<open>Armedness is a property of the registers alone.\<close>

lemma hw_armed_io_cong: "io m' = io m \<Longrightarrow> hw_armed cfg m' = hw_armed cfg m"
  by (simp add: hw_armed_def split: soc.split)

lemma hw_armed_updates [simp]:
  "hw_armed cfg (m\<lparr>users := u\<rparr>) = hw_armed cfg m"
  "hw_armed cfg (m\<lparr>timeout := t\<rparr>) = hw_armed cfg m"
  "hw_armed cfg (m\<lparr>status := s\<rparr>) = hw_armed cfg m"
  "hw_armed cfg (m\<lparr>way_out_ok := w\<rparr>) = hw_armed cfg m"
  "hw_armed cfg (m\<lparr>irq_counter := c\<rparr>) = hw_armed cfg m"
  "hw_armed cfg (m\<lparr>irq := n\<rparr>) = hw_armed cfg m"
  "hw_armed cfg (m\<lparr>tmrsrc := n\<rparr>) = hw_armed cfg m"
  "hw_armed cfg (emit e m) = hw_armed cfg m"
  by (simp_all add: hw_armed_def split: soc.split)

lemma timer_en_test: "(v OR (TIMER_EN OR TIMER_PERIODIC)) AND TIMER_EN \<noteq> 0"
  unfolding test_timer_en_iff by (rule bit_timer_en_or)

lemma wdt_en_test: "(WDT_EN OR WDT_SEL_TMR1 OR WDT_SYS_RST) AND WDT_EN \<noteq> 0"
  unfolding test_wdt_en_iff by (rule bit_src_val)

lemma hw_armed_enable [simp]: "hw_armed cfg (tegra_wdt_enable cfg m)"
proof (cases "soc cfg")
  case Tegra2x
  have "io (tegra_wdt_enable_2x m) (Wdt_source, 0) = WDT_EN OR WDT_SEL_TMR1 OR WDT_SYS_RST"
    and "io (tegra_wdt_enable_2x m) (Wdt_timer, TIMER_PTV) =
           timeout m * 1000000 div 2 OR (TIMER_EN OR TIMER_PERIODIC)"
    by (simp_all add: enable_2x_io)
  then show ?thesis
    using timer_en_test wdt_en_test
    by (simp only: hw_armed_def tegra_wdt_enable_def Tegra2x soc.case simp_thms)
next
  case Tegra3x
  have "io (tegra_wdt_enable_3x cfg m) (Wdt_source, WDT_CMD) = WDT_CMD_START_COUNTER"
    and "io (tegra_wdt_enable_3x cfg m) (Wdt_timer, TIMER_PTV) =
           timeout m * 1000000 div 4 OR (TIMER_EN OR TIMER_PERIODIC)"
    by (simp_all add: enable_3x_io WDT_CMD_def WDT_CFG_def)
  then show ?thesis
    using timer_en_test
    by (simp only: hw_armed_def tegra_wdt_enable_def Tegra3x soc.case simp_thms)
qed

lemma hw_armed_disable [simp]: "\<not> hw_armed cfg (tegra_wdt_disable cfg m)"
  by (cases "soc cfg")
     (simp_all add: hw_armed_def tegra_wdt_disable_def disable_2x_io disable_3x_io
        TIMER_PTV_def TIMER_PCR_def WDT_CMD_def WDT_CFG_def WDT_UNLOCK_def)

lemma hw_armed_ping: "hw_armed cfg m \<Longrightarrow> hw_armed cfg (tegra_wdt_ping cfg m)"
proof (cases "soc cfg")
  case Tegra2x
  have "hw_armed cfg (tegra_wdt_enable cfg m)" by simp
  then have "hw_armed cfg (tegra_wdt_enable_2x m)"
    by (simp add: tegra_wdt_enable_def Tegra2x)
  then show ?thesis
    by (simp add: tegra_wdt_ping_def Tegra2x hw_armed_def ping_2x_io TIMER_PTV_def TIMER_PCR_def)
next
  case Tegra3x
  assume "hw_armed cfg m"
  then show ?thesis
    by (simp add: tegra_wdt_ping_def Tegra3x hw_armed_def TIMER_PTV_def WDT_CMD_def)
qed

lemma hw_armed_ping_2x: "soc cfg = Tegra2x \<Longrightarrow> hw_armed cfg (tegra_wdt_ping cfg m)"
proof -
  assume c: "soc cfg = Tegra2x"
  have "hw_armed cfg (tegra_wdt_enable cfg m)" by simp
  then have "hw_armed cfg (tegra_wdt_enable_2x m)"
    by (simp add: tegra_wdt_enable_def c)
  then show ?thesis
    by (simp add: tegra_wdt_ping_def c hw_armed_def ping_2x_io TIMER_PTV_def TIMER_PCR_def)
qed

lemma new_events_simps [simp]:
  "new_events m (m'\<lparr>way_out_ok := w\<rparr>) = new_events m m'"
  "new_events m (m'\<lparr>status := st\<rparr>) = new_events m m'"
  "new_events m (m'\<lparr>users := u\<rparr>) = new_events m m'"
  "new_events m (m'\<lparr>timeout := t\<rparr>) = new_events m m'"
  "new_events m (m'\<lparr>irq_counter := c\<rparr>) = new_events m m'"
  "new_events m m = []"
  by (simp_all add: new_events_def)

lemma new_events_updates_left [simp]:
  "new_events (m\<lparr>way_out_ok := w\<rparr>) m' = new_events m m'"
  "new_events (m\<lparr>status := st\<rparr>) m' = new_events m m'"
  "new_events (m\<lparr>users := u\<rparr>) m' = new_events m m'"
  "new_events (m\<lparr>timeout := t\<rparr>) m' = new_events m m'"
  "new_events (m\<lparr>irq_counter := c\<rparr>) m' = new_events m m'"
  by (simp_all add: new_events_def)

lemma new_events_ping_2x:
  "new_events m (tegra_wdt_ping_2x m) =
     [Writel (timeout m * 1000000 div 2 OR (TIMER_EN OR TIMER_PERIODIC)) (Wdt_timer, TIMER_PTV),
      Writel (WDT_EN OR WDT_SEL_TMR1 OR WDT_SYS_RST) (Wdt_source, 0)] @
     (if irq_counter m \<noteq> 0
      then [Writel TIMER_PCR_INTR (Wdt_timer, TIMER_PCR), Enable_irq (irq m)] else [])"
  by (simp add: new_events_def ping_2x_trace enable_2x_trace)

lemma new_events_ping_3x:
  "new_events m (tegra_wdt_ping_3x m) = [Writel WDT_CMD_START_COUNTER (Wdt_source, WDT_CMD)]"
  by (simp add: new_events_def)

lemma pinged_ping: "pinged cfg m (tegra_wdt_ping cfg m)"
  by (cases "soc cfg")
     (simp_all add: pinged_def reload_write_def tegra_wdt_ping_def new_events_ping_2x
        new_events_ping_3x)

lemma pinged_update [simp]:
  "pinged cfg m (m'\<lparr>way_out_ok := w\<rparr>) = pinged cfg m m'"
  by (simp add: pinged_def)

lemma set_bit_users_idem: "bit (w::u32) (Suc 0) \<Longrightarrow> set_bit (Suc 0) w = w"
  by (simp add: set_bit_eq_idem_iff)

lemma sint_bounds [simp]: "sint (5::u32) = 5" "sint (1000::u32) = 1000"
  by simp_all

lemma clamp_period:
  "clamp t MIN_WDT_PERIOD MAX_WDT_PERIOD =
     (if sint t < 5 then 5 else if 1000 < sint t then 1000 else t)"
  by (simp add: clamp_def MIN_WDT_PERIOD_def MAX_WDT_PERIOD_def Let_def)

lemma clamp_period_range:
  "5 \<le> sint (clamp t MIN_WDT_PERIOD MAX_WDT_PERIOD) \<and>
   sint (clamp t MIN_WDT_PERIOD MAX_WDT_PERIOD) \<le> 1000"
  by (simp add: clamp_period)

lemma ioctl_settimeout:
  "get_int ua = Some t \<Longrightarrow>
   tegra_wdt_ioctl cfg WDIOC_SETTIMEOUT ua m =
     (put_user (clamp t MIN_WDT_PERIOD MAX_WDT_PERIOD) ua,
      tegra_wdt_enable cfg
        ((tegra_wdt_disable cfg m)\<lparr>timeout := clamp t MIN_WDT_PERIOD MAX_WDT_PERIOD\<rparr>))"
  by (simp add: tegra_wdt_ioctl_def Let_def)

lemma run_simps [simp]:
  "run cfg [] m = m"
  "run cfg (op # ops) m = run cfg ops (fop_step cfg m op)"
  "run cfg (ops @ ops') m = run cfg ops' (run cfg ops m)"
  by (simp_all add: run_def)

lemma wdt_enabled_updates [simp]:
  "wdt_enabled (m\<lparr>users := u\<rparr>) = wdt_enabled m"
  "wdt_enabled (m\<lparr>timeout := t\<rparr>) = wdt_enabled m"
  "wdt_enabled (m\<lparr>way_out_ok := w\<rparr>) = wdt_enabled m"
  "wdt_enabled (m\<lparr>irq_counter := c\<rparr>) = wdt_enabled m"
  "wdt_enabled (emit e m) = wdt_enabled m"
  "wdt_enabled (tegra_wdt_enable cfg m) = wdt_enabled m"
  "wdt_enabled (tegra_wdt_disable cfg m) = wdt_enabled m"
  "wdt_enabled (tegra_wdt_ping cfg m) = wdt_enabled m"
  by (simp_all add: wdt_enabled_def)

lemma wdt_enabled_or [simp]: "wdt_enabled (m\<lparr>status := st OR WDT_ENABLED\<rparr>)"
  by (simp add: wdt_enabled_def test_enabled_iff bit_or_iff)
     (simp add: WDT_ENABLED_def)

lemma wdt_enabled_clear_disabled [simp]:
  "wdt_enabled (m\<lparr>status := st AND NOT WDT_DISABLED\<rparr>) = wdt_enabled (m\<lparr>status := st\<rparr>)"
  by (simp add: wdt_enabled_def test_enabled_iff bit_and_iff bit_not_iff)
     (simp add: WDT_DISABLED_def bit_1_iff)

lemma not_enabled_disabled [simp]: "\<not> wdt_enabled (m\<lparr>status := WDT_DISABLED\<rparr>)"
  by (simp add: wdt_enabled_def WDT_DISABLED_def WDT_ENABLED_def)

lemma write_keeps_enabled_armed:
  "wdt_enabled (snd (tegra_wdt_write cfg um data len m)) = wdt_enabled m"
  "status (snd (tegra_wdt_write cfg um data len m)) = status m"
  "hw_armed cfg m \<Longrightarrow> hw_armed cfg (snd (tegra_wdt_write cfg um data len m))"
  by (simp_all add: tegra_wdt_write_def Let_def hw_armed_ping wdt_enabled_def split: option.split)

lemma writes_keep_enabled_armed:
  "list_all is_write ws \<Longrightarrow> wdt_enabled m \<Longrightarrow> hw_armed cfg m \<Longrightarrow>
   wdt_enabled (run cfg ws m) \<and> hw_armed cfg (run cfg ws m)"
proof (induction ws arbitrary: m)
  case Nil
  then show ?case by simp
next
  case (Cons w ws)
  then obtain um data len where w: "w = Write um data len"
    by (cases w) simp_all
  from Cons.prems have "wdt_enabled (fop_step cfg m w)" "hw_armed cfg (fop_step cfg m w)"
    by (simp_all add: w write_keeps_enabled_armed)
  with Cons.IH Cons.prems show ?case by simp
qed

lemma release_after_write:
  assumes "\<not> nowayout cfg" "wdt_enabled m" "len \<noteq> 0" "um (data + len - 1) = Some c"
  shows "snd (tegra_wdt_release cfg (snd (tegra_wdt_write cfg um data len m))) =
     (if c = 0x56
      then (tegra_wdt_disable cfg ((tegra_wdt_ping cfg m)\<lparr>way_out_ok := 1\<rparr>))
             \<lparr>status := WDT_DISABLED, users := clear_bit 1 (users m)\<rparr>
      else (dev_info ''No Magic Close received, watchdog not disabled!\<newline>''
              ((tegra_wdt_ping cfg m)\<lparr>way_out_ok := 0\<rparr>))
             \<lparr>users := clear_bit 1 (users m)\<rparr>)"
  using assms
  by (simp add: tegra_wdt_release_def tegra_wdt_write_def Let_def wdt_enabled_def dev_info_def)

lemma release_nowayout:
  "nowayout cfg \<Longrightarrow>
   tegra_wdt_release cfg m =
     (Inr 0, (dev_info ''No way out is enabled, watchdog not disabled!\<newline>'' m)
               \<lparr>users := clear_bit 1 (users m)\<rparr>)"
  by (simp add: tegra_wdt_release_def Let_def dev_info_def)

lemma open_keeps_enabled_armed:
  "wdt_enabled m \<Longrightarrow> hw_armed cfg m \<Longrightarrow>
   wdt_enabled (snd (tegra_wdt_open cfg m)) \<and> hw_armed cfg (snd (tegra_wdt_open cfg m))"
  by (simp add: tegra_wdt_open_def test_and_set_bit_def Let_def)

lemma ioctl_nowayout_keeps_enabled_armed:
  assumes "nowayout cfg" "wdt_enabled m" "hw_armed cfg m"
  shows "wdt_enabled (snd (tegra_wdt_ioctl cfg cmd ua m)) \<and>
         hw_armed cfg (snd (tegra_wdt_ioctl cfg cmd ua m))"
proof (cases cmd)
  case WDIOC_SETOPTIONS
  then show ?thesis
    using assms by (simp add: tegra_wdt_ioctl_def Let_def split: option.split)
next
  case WDIOC_SETTIMEOUT
  then show ?thesis
    using assms by (simp add: tegra_wdt_ioctl_def Let_def split: option.split)
next
  case WDIOC_KEEPALIVE
  then show ?thesis
    using assms by (simp add: tegra_wdt_ioctl_def hw_armed_ping)
qed (use assms in \<open>simp_all add: tegra_wdt_ioctl_def\<close>)

lemma fop_step_nowayout:
  assumes "nowayout cfg" "wdt_enabled m" "hw_armed cfg m"
  shows "wdt_enabled (fop_step cfg m op) \<and> hw_armed cfg (fop_step cfg m op)"
proof (cases op)
  case Open
  then show ?thesis using assms by (simp add: open_keeps_enabled_armed)
next
  case (Write um data len)
  then show ?thesis using assms by (simp add: write_keeps_enabled_armed)
next
  case (Ioctl cmd ua)
  then show ?thesis using assms by (simp add: ioctl_nowayout_keeps_enabled_armed)
next
  case Release
  then show ?thesis using assms by (simp add: release_nowayout dev_info_def)
qed

lemma run_nowayout:
  "nowayout cfg \<Longrightarrow> wdt_enabled m \<Longrightarrow> hw_armed cfg m \<Longrightarrow>
   wdt_enabled (run cfg ops m) \<and> hw_armed cfg (run cfg ops m)"
proof (induction ops arbitrary: m)
  case Nil
  then show ?case by simp
next
  case (Cons op ops)
  have "wdt_enabled (fop_step cfg m op) \<and> hw_armed cfg (fop_step cfg m op)"
    using Cons.prems by (rule fop_step_nowayout)
  with Cons.IH [of "fop_step cfg m op"] Cons.prems(1) show ?case by simp
qed

lemma timeout_in_range_updates [simp]:
  "timeout_in_range (m\<lparr>users := u\<rparr>) = timeout_in_range m"
  "timeout_in_range (m\<lparr>status := st\<rparr>) = timeout_in_range m"
  "timeout_in_range (m\<lparr>way_out_ok := w\<rparr>) = timeout_in_range m"
  "timeout_in_range (m\<lparr>irq_counter := c\<rparr>) = timeout_in_range m"
  "timeout_in_range (m\<lparr>irq := c\<rparr>) = timeout_in_range m"
  "timeout_in_range (m\<lparr>io := f\<rparr>) = timeout_in_range m"
  "timeout_in_range (emit e m) = timeout_in_range m"
  "timeout_in_range (writel v a m) = timeout_in_range m"
  "timeout_in_range (tegra_wdt_enable cfg m) = timeout_in_range m"
  "timeout_in_range (tegra_wdt_disable cfg m) = timeout_in_range m"
  "timeout_in_range (tegra_wdt_ping cfg m) = timeout_in_range m"
  "timeout_in_range (tegra_wdt_ping_2x m) = timeout_in_range m"
  "timeout_in_range (tegra_wdt_ping_3x m) = timeout_in_range m"
  by (simp_all add: timeout_in_range_def)

lemma hw_armed_writel_other:
  "a \<noteq> (Wdt_timer, TIMER_PTV) \<Longrightarrow> a \<noteq> (Wdt_source, 0) \<Longrightarrow> a \<noteq> (Wdt_source, WDT_CMD) \<Longrightarrow>
   hw_armed cfg (writel v a m) = hw_armed cfg m"
  by (auto simp: hw_armed_def split: soc.split)

lemma hw_armed_needs_timer:
  "io m (Wdt_timer, TIMER_PTV) = 0 \<Longrightarrow> \<not> hw_armed cfg m"
  by (simp add: hw_armed_def split: soc.split)

lemma disable_clears_timer: "io (tegra_wdt_disable cfg m) (Wdt_timer, TIMER_PTV) = 0"
  by (simp add: tegra_wdt_disable_def disable_2x_io disable_3x_io split: soc.split)

lemma never_enabled_events [simp]:
  "never_enabled cfg (emit e m) = never_enabled cfg m"
  "never_enabled cfg (m\<lparr>irq_counter := c\<rparr>) = never_enabled cfg m"
  "never_enabled cfg (m\<lparr>irq := c\<rparr>) = never_enabled cfg m"
  by (simp_all add: never_enabled_def wdt_enabled_def)

lemma probe_register_inv:
  assumes "probe_register cfg pd ke m0 = (Probe_done, m)"
    and "timeout_in_range (m0\<lparr>timeout := heartbeat cfg\<rparr>)"
    and "\<not> hw_armed cfg m0" and "users m0 = 0"
  shows "reach_inv cfg False m"
proof (cases "enable_heartbeat cfg \<and> is_heartbeat_wdt cfg pd")
  case True
  with assms(1) have "timeout m = heartbeat cfg"
    by (auto simp: probe_register_def Let_def pr_info_def dev_info_def split: if_splits)
  with assms(2) show ?thesis
    by (simp add: reach_inv_def timeout_in_range_def)
next
  case False
  with assms(1) have "m = dev_info ''tegra_wdt_probe done\<newline>'' (m0\<lparr>status := WDT_DISABLED\<rparr>)"
    by (auto simp: probe_register_def Let_def split: if_splits)
  with assms(3,4) show ?thesis
    by (simp add: reach_inv_def never_enabled_def dev_info_def wdt_enabled_def
          WDT_DISABLED_def WDT_ENABLED_def WDT_KERNEL_HEARTBEAT_def)
qed

lemma probe_irq_inv:
  assumes "probe_irq cfg pd ke n m0 = (Probe_done, m)"
    and "timeout_in_range (m0\<lparr>timeout := heartbeat cfg\<rparr>)"
    and "\<not> hw_armed cfg m0" and "users m0 = 0"
  shows "reach_inv cfg False m"
proof -
  let ?m1 = "if fiq_debugger cfg then tegra_wdt_int_priority cfg True m0 else m0"
  have reg: "probe_register cfg pd ke (?m1\<lparr>irq := n\<rparr>) = (Probe_done, m)"
    using assms(1) by (auto simp: probe_irq_def Let_def split: if_splits)
  have 1: "\<not> hw_armed cfg (?m1\<lparr>irq := n\<rparr>)"
    using assms(3)
    by (simp add: tegra_wdt_int_priority_def Let_def hw_armed_writel_other)
  have 2: "users (?m1\<lparr>irq := n\<rparr>) = 0"
    using assms(4) by (simp add: tegra_wdt_int_priority_def Let_def)
  have 3: "timeout_in_range (?m1\<lparr>irq := n, timeout := heartbeat cfg\<rparr>)"
    using assms(2) by (simp add: timeout_in_range_def)
  from reg 3 1 2 show ?thesis by (rule probe_register_inv)
qed

lemma probe_hw_inv:
  assumes "probe_hw cfg pd ke m0 = (Probe_done, m)"
    and "timeout_in_range (m0\<lparr>timeout := heartbeat cfg\<rparr>)"
    and "users m0 = 0"
  shows "reach_inv cfg False m"
proof -
  let ?m1 = "if soc cfg = Tegra2x \<and> readl (Wdt_source, 0) m0 AND push_bit 12 1 \<noteq> 0
              then dev_info ''last reset due to watchdog timeout\<newline>'' m0 else m0"
  let ?m2 = "writel TIMER_PCR_INTR (Wdt_timer, TIMER_PCR) (tegra_wdt_disable cfg ?m1)"
  let ?m3 = "if soc cfg \<noteq> Tegra2x
              then writel WDT_CMD_START_COUNTER (Wdt_source, WDT_CMD) ?m2 else ?m2"
  have "io ?m3 (Wdt_timer, TIMER_PTV) = 0"
    by (simp add: disable_clears_timer [unfolded TIMER_PTV_def] TIMER_PCR_def TIMER_PTV_def
          WDT_CMD_def)
  then have 1: "\<not> hw_armed cfg ?m3" by (rule hw_armed_needs_timer)
  have 2: "users ?m3 = 0" using assms(3) by (simp add: dev_info_def)
  have 3: "timeout_in_range (?m3\<lparr>timeout := heartbeat cfg\<rparr>)"
    using assms(2) by (simp add: timeout_in_range_def)
  show ?thesis
  proof (cases "res_irq pd")
    case None
    have "probe_register cfg pd ke ?m3 = (Probe_done, m)"
      using assms(1) unfolding probe_hw_def Let_def None option.case .
    from this 3 1 2 show ?thesis by (rule probe_register_inv)
  next
    case (Some n)
    have "probe_irq cfg pd ke n ?m3 = (Probe_done, m)"
      using assms(1) unfolding probe_hw_def Let_def Some option.case .
    from this 3 1 2 show ?thesis by (rule probe_irq_inv)
  qed
qed

lemma probe_inv:
  assumes "tegra_wdt_probe cfg pd ke hw = (Probe_done, m)"
    and "5 \<le> sint (heartbeat cfg)" and "sint (heartbeat cfg) \<le> 1000"
  shows "reach_inv cfg False m"
proof -
  let ?m0 = "(kzalloc hw)\<lparr>tmrsrc := word_of_int (sint (TMR_SRC_START + pdev_id pd) smod 10)\<rparr>"
  have "probe_hw cfg pd ke ?m0 = (Probe_done, m)"
    using assms(1) by (simp add: tegra_wdt_probe_def Let_def split: if_splits)
  moreover have "timeout_in_range (?m0\<lparr>timeout := heartbeat cfg\<rparr>)"
    using assms(2,3) by (simp add: timeout_in_range_def)
  moreover have "users ?m0 = 0" by (simp add: kzalloc_def)
  ultimately show ?thesis by (rule probe_hw_inv)
qed

lemma reach_inv_session:
  "reach_inv cfg True m \<Longrightarrow> bit (users m) 1 \<and> timeout_in_range m"
  by (auto simp: reach_inv_def never_enabled_def)

lemma reach_inv_in_range:
  "(s \<longrightarrow> bit (users m) 1) \<Longrightarrow> timeout_in_range m \<Longrightarrow> reach_inv cfg s m"
  by (simp add: reach_inv_def)

lemma open_inv:
  assumes "reach_inv cfg s m" and "timeout_in_range (m\<lparr>timeout := heartbeat cfg\<rparr>)"
  shows "tegra_wdt_open cfg m = (Inr r, m') \<Longrightarrow> reach_inv cfg True m'"
    and "tegra_wdt_open cfg m = (Inl e, m') \<Longrightarrow> reach_inv cfg s m'"
proof -
  assume "tegra_wdt_open cfg m = (Inr r, m')"
  then have "bit (users m') 1 \<and> timeout m' = heartbeat cfg"
    by (auto simp: tegra_wdt_open_def test_and_set_bit_def Let_def bit_set_bit_iff
          split: if_splits)
  with assms(2) show "reach_inv cfg True m'"
    by (simp add: reach_inv_def timeout_in_range_def)
next
  assume "tegra_wdt_open cfg m = (Inl e, m')"
  then have "m' = m"
    by (auto simp: tegra_wdt_open_def test_and_set_bit_def Let_def set_bit_users_idem
          split: if_splits)
  with assms(1) show "reach_inv cfg s m'" by simp
qed

lemma write_inv:
  assumes "reach_inv cfg True m"
  shows "reach_inv cfg True (snd (tegra_wdt_write cfg um data len m))"
proof -
  from assms have "bit (users m) 1 \<and> timeout_in_range m" by (rule reach_inv_session)
  then show ?thesis
    by (intro reach_inv_in_range)
       (simp_all add: tegra_wdt_write_def Let_def split: option.split)
qed

lemma ioctl_timeout_users:
  "users (snd (tegra_wdt_ioctl cfg cmd ua m)) = users m"
  "timeout_in_range m \<Longrightarrow> timeout_in_range (snd (tegra_wdt_ioctl cfg cmd ua m))"
  by (cases cmd;
      simp add: tegra_wdt_ioctl_def Let_def timeout_in_range_def clamp_period
        split: option.split)+

lemma ioctl_inv:
  assumes "reach_inv cfg True m"
  shows "reach_inv cfg True (snd (tegra_wdt_ioctl cfg cmd ua m))"
proof -
  from assms have "bit (users m) 1 \<and> timeout_in_range m" by (rule reach_inv_session)
  then show ?thesis
    by (intro reach_inv_in_range) (simp_all add: ioctl_timeout_users)
qed

lemma release_inv:
  assumes "reach_inv cfg True m"
  shows "reach_inv cfg False (snd (tegra_wdt_release cfg m))"
proof -
  from assms have "timeout_in_range m" by (simp add: reach_inv_session)
  then have "timeout_in_range (snd (tegra_wdt_release cfg m))"
    by (simp add: tegra_wdt_release_def Let_def dev_info_def)
  then show ?thesis by (simp add: reach_inv_def)
qed

lemma interrupt_2x_inv:
  assumes "reach_inv cfg s m"
  shows "reach_inv cfg s (snd (tegra_wdt_interrupt_2x n m))"
proof (cases "status m AND WDT_KERNEL_HEARTBEAT = 0")
  case True
  then have "snd (tegra_wdt_interrupt_2x n m) =
      disable_irq_nosync n (tasklet_schedule (m\<lparr>irq_counter := irq_counter m + 1\<rparr>))"
    by (simp add: tegra_wdt_interrupt_2x_def Let_def)
  with assms show ?thesis
    by (simp add: reach_inv_def disable_irq_nosync_def tasklet_schedule_def)
next
  case False
  then have ne: "\<not> never_enabled cfg m" by (simp add: never_enabled_def)
  from False have "snd (tegra_wdt_interrupt_2x n m) =
      tegra_wdt_ping_2x (m\<lparr>irq_counter := irq_counter m + 1\<rparr>)"
    by (simp add: tegra_wdt_interrupt_2x_def Let_def)
  with assms ne show ?thesis
    by (simp add: reach_inv_def)
qed

lemma interrupt_slot_inv:
  assumes "reach_inv cfg s m" and "tegra_wdt_interrupt_slot w (Some m) = (w', Some m')"
  shows "reach_inv cfg s m'"
proof (cases "wdt_enabled m")
  case False
  with assms(2) have "m' = m"
    by (simp add: tegra_wdt_interrupt_slot_def Let_def wdt_enabled_def)
  with assms(1) show ?thesis by simp
next
  case True
  then have ne: "\<not> never_enabled cfg m" by (simp add: never_enabled_def)
  from assms(2) have "users m' = users m \<and> timeout m' = timeout m"
    by (auto simp: tegra_wdt_interrupt_slot_def tegra_wdt_interrupt_instance_def Let_def
          split: if_splits prod.splits)
  with assms(1) ne show ?thesis
    by (simp add: reach_inv_def timeout_in_range_def)
qed

lemma hw_status_inv:
  assumes "reach_inv cfg s m" and "soc cfg = Tegra3x"
  shows "reach_inv cfg s (m\<lparr>io := (io m)((Wdt_source, WDT_STATUS) := v)\<rparr>)"
  using assms
  by (simp add: reach_inv_def never_enabled_def wdt_enabled_def hw_armed_def
        TIMER_PTV_def WDT_STATUS_def WDT_CMD_def)

lemma disable_inv:
  assumes "reach_inv cfg s m"
  shows "reach_inv cfg s (tegra_wdt_disable cfg m)"
  using assms by (auto simp: reach_inv_def never_enabled_def)

lemma resume_inv:
  assumes "reach_inv cfg s m"
  shows "reach_inv cfg s (snd (tegra_wdt_resume cfg m))"
proof (cases "wdt_enabled m")
  case False
  then show ?thesis using assms by (simp add: tegra_wdt_resume_def wdt_enabled_def)
next
  case True
  then have "\<not> never_enabled cfg m" by (simp add: never_enabled_def)
  with assms show ?thesis
    by (simp add: tegra_wdt_resume_def Let_def reach_inv_def)
qed

lemma reach_invariant:
  assumes "reach cfg s m" and "5 \<le> sint (heartbeat cfg)" and "sint (heartbeat cfg) \<le> 1000"
  shows "reach_inv cfg s m"
  using assms(1)
proof (induction rule: reach.induct)
  case (by_probe pd ke hw m)
  then show ?case using assms(2,3) by (simp add: probe_inv)
next
  case (by_open s m r m')
  have "timeout_in_range (m\<lparr>timeout := heartbeat cfg\<rparr>)"
    using assms(2,3) by (simp add: timeout_in_range_def)
  with by_open show ?case by (simp add: open_inv(1))
next
  case (by_open_busy s m e m')
  have "timeout_in_range (m\<lparr>timeout := heartbeat cfg\<rparr>)"
    using assms(2,3) by (simp add: timeout_in_range_def)
  with by_open_busy show ?case by (simp add: open_inv(2))
next
  case (by_notify s m code)
  then show ?case by (simp add: tegra_wdt_notify_def Let_def disable_inv)
next
  case (by_suspend s m)
  then show ?case by (simp add: tegra_wdt_suspend_def disable_inv)
next
  case (by_tasklet s m)
  then show ?case by (simp add: tegra_wdt_do_tasklet_def dev_info_def reach_inv_def)
qed (simp_all add: write_inv ioctl_inv release_inv interrupt_2x_inv interrupt_slot_inv
       hw_status_inv resume_inv)

lemma probe_register_shape:
  assumes "probe_register cfg pd ke m0 = (Probe_done, m)"
  shows "m = dev_info ''tegra_wdt_probe done\<newline>'' (m0\<lparr>status := WDT_DISABLED\<rparr>) \<or>
         m = dev_info ''tegra_wdt_probe done\<newline>''
               (pr_info ''WDT kernel heartbeat enabled on probe\<newline>''
                 (tegra_wdt_enable cfg
                    (m0\<lparr>status := WDT_ENABLED OR WDT_KERNEL_HEARTBEAT, timeout := heartbeat cfg,
                        users := set_bit 1 (users m0)\<rparr>)))"
  using assms by (auto simp: probe_register_def Let_def split: if_splits)

lemma probe_done_shape:
  assumes "tegra_wdt_probe cfg pd ke hw = (Probe_done, m)"
  shows "\<exists>m0. users m0 = 0 \<and> io m0 (Wdt_timer, TIMER_PTV) = 0 \<and>
           (m = dev_info ''tegra_wdt_probe done\<newline>'' (m0\<lparr>status := WDT_DISABLED\<rparr>) \<or>
            m = dev_info ''tegra_wdt_probe done\<newline>''
                  (pr_info ''WDT kernel heartbeat enabled on probe\<newline>''
                    (tegra_wdt_enable cfg
                       (m0\<lparr>status := WDT_ENABLED OR WDT_KERNEL_HEARTBEAT, timeout := heartbeat cfg,
                           users := set_bit 1 (users m0)\<rparr>))))"
proof -
  let ?k = "(kzalloc hw)\<lparr>tmrsrc := word_of_int (sint (TMR_SRC_START + pdev_id pd) smod 10)\<rparr>"
  let ?m1 = "if soc cfg = Tegra2x \<and> readl (Wdt_source, 0) ?k AND push_bit 12 1 \<noteq> 0
              then dev_info ''last reset due to watchdog timeout\<newline>'' ?k else ?k"
  let ?m2 = "writel TIMER_PCR_INTR (Wdt_timer, TIMER_PCR) (tegra_wdt_disable cfg ?m1)"
  let ?m3 = "if soc cfg \<noteq> Tegra2x
              then writel WDT_CMD_START_COUNTER (Wdt_source, WDT_CMD) ?m2 else ?m2"
  have hw: "probe_hw cfg pd ke ?k = (Probe_done, m)"
    using assms by (simp add: tegra_wdt_probe_def Let_def split: if_splits)
  have t3: "io ?m3 (Wdt_timer, TIMER_PTV) = 0"
    by (simp add: disable_clears_timer [unfolded TIMER_PTV_def] TIMER_PCR_def TIMER_PTV_def
          WDT_CMD_def)
  have u3: "users ?m3 = 0" by (simp add: dev_info_def kzalloc_def)
  show ?thesis
  proof (cases "res_irq pd")
    case None
    have "probe_register cfg pd ke ?m3 = (Probe_done, m)"
      using hw unfolding probe_hw_def Let_def None option.case .
    from probe_register_shape [OF this] t3 u3 show ?thesis by blast
  next
    case (Some n)
    have irq: "probe_irq cfg pd ke n ?m3 = (Probe_done, m)"
      using hw unfolding probe_hw_def Let_def Some option.case .
    let ?m4 = "(if fiq_debugger cfg then tegra_wdt_int_priority cfg True ?m3 else ?m3)\<lparr>irq := n\<rparr>"
    have reg: "probe_register cfg pd ke ?m4 = (Probe_done, m)"
      using irq by (auto simp: probe_irq_def Let_def split: if_splits)
    have "io ?m4 (Wdt_timer, TIMER_PTV) = io ?m3 (Wdt_timer, TIMER_PTV)"
      by (simp add: tegra_wdt_int_priority_def Let_def)
    with t3 have t4: "io ?m4 (Wdt_timer, TIMER_PTV) = 0" by simp
    have "users ?m4 = users ?m3"
      by (simp add: tegra_wdt_int_priority_def Let_def)
    with u3 have u4: "users ?m4 = 0" by simp
    from probe_register_shape [OF reg] t4 u4 show ?thesis by blast
  qed
qed


lemma cmd_follows_timer_updates [simp]:
  "cmd_follows_timer (m\<lparr>users := u\<rparr>) = cmd_follows_timer m"
  "cmd_follows_timer (m\<lparr>timeout := t\<rparr>) = cmd_follows_timer m"
  "cmd_follows_timer (m\<lparr>status := st\<rparr>) = cmd_follows_timer m"
  "cmd_follows_timer (m\<lparr>way_out_ok := w\<rparr>) = cmd_follows_timer m"
  "cmd_follows_timer (emit e m) = cmd_follows_timer m"
  by (simp_all add: cmd_follows_timer_def)

lemma cmd_follows_timer_3x [simp]:
  "cmd_follows_timer (tegra_wdt_enable_3x cfg m)"
  "cmd_follows_timer (tegra_wdt_disable_3x m)"
  "cmd_follows_timer (tegra_wdt_ping_3x m)"
  by (simp_all add: cmd_follows_timer_def enable_3x_io disable_3x_io
        TIMER_PTV_def TIMER_PCR_def WDT_CMD_def WDT_CFG_def WDT_UNLOCK_def)

lemma cmd_follows_timer_off: "io m (Wdt_timer, TIMER_PTV) = 0 \<Longrightarrow> cmd_follows_timer m"
  by (simp add: cmd_follows_timer_def)

lemma reach_cmd_follows_timer:
  assumes "reach cfg s m" and t3: "soc cfg = Tegra3x"
  shows "cmd_follows_timer m"
  using assms(1)
proof (induction rule: reach.induct)
  case (by_probe pd ke hw m)
  from probe_done_shape [OF by_probe] t3 show ?case
    by (auto simp: dev_info_def pr_info_def tegra_wdt_enable_def cmd_follows_timer_off)
next
  case (by_open s m r m')
  then show ?case
    by (auto simp: tegra_wdt_open_def test_and_set_bit_def Let_def tegra_wdt_enable_def t3
          split: if_splits)
next
  case (by_open_busy s m e m')
  then show ?case
    by (auto simp: tegra_wdt_open_def test_and_set_bit_def Let_def split: if_splits)
next
  case (by_write m um data len)
  then show ?case
    by (simp add: tegra_wdt_write_def Let_def tegra_wdt_ping_def t3 split: option.split)
next
  case (by_ioctl m cmd ua)
  then show ?case
    by (cases cmd)
       (simp_all add: tegra_wdt_ioctl_def Let_def tegra_wdt_ping_def tegra_wdt_enable_def
          tegra_wdt_disable_def t3 split: option.split)
next
  case (by_release m)
  then show ?case
    by (simp add: tegra_wdt_release_def Let_def tegra_wdt_disable_def t3 dev_info_def)
next
  case (by_interrupt_2x s m n)
  with t3 show ?case by simp
next
  case (by_tasklet s m)
  with t3 show ?case by simp
next
  case (by_interrupt_3x s m warned warned' m')
  then show ?case
    by (auto simp: tegra_wdt_interrupt_slot_def tegra_wdt_interrupt_instance_def Let_def
          split: if_splits prod.splits)
next
  case (by_hw_status s m v)
  then show ?case
    by (simp add: cmd_follows_timer_def TIMER_PTV_def WDT_STATUS_def WDT_CMD_def)
next
  case (by_notify s m code)
  then show ?case
    by (simp add: tegra_wdt_notify_def Let_def tegra_wdt_disable_def t3)
next
  case (by_suspend s m)
  then show ?case by (simp add: tegra_wdt_suspend_def tegra_wdt_disable_def t3)
next
  case (by_resume s m)
  then show ?case by (simp add: tegra_wdt_resume_def Let_def tegra_wdt_enable_def t3)
qed

lemma ping_3x_keeps_arming:
  assumes "soc cfg = Tegra3x" and "cmd_follows_timer m"
  shows "hw_armed cfg (tegra_wdt_ping cfg m) = hw_armed cfg m"
  using assms
  by (auto simp: hw_armed_def tegra_wdt_ping_def cmd_follows_timer_def TIMER_PTV_def WDT_CMD_def)

lemma test_heartbeat_zero_iff: "(w AND WDT_KERNEL_HEARTBEAT = 0) = (\<not> bit (w::u32) 2)"
  using test_heartbeat_iff [of w] by blast

lemma heartbeat_bit_simps:
  "((st OR WDT_ENABLED) AND WDT_KERNEL_HEARTBEAT = 0) = (st AND WDT_KERNEL_HEARTBEAT = 0)"
  "((st OR WDT_DISABLED) AND WDT_KERNEL_HEARTBEAT = 0) = (st AND WDT_KERNEL_HEARTBEAT = 0)"
  "((st AND NOT WDT_ENABLED) AND WDT_KERNEL_HEARTBEAT = 0) = (st AND WDT_KERNEL_HEARTBEAT = 0)"
  "((st AND NOT WDT_DISABLED) AND WDT_KERNEL_HEARTBEAT = 0) = (st AND WDT_KERNEL_HEARTBEAT = 0)"
  "WDT_DISABLED AND WDT_KERNEL_HEARTBEAT = 0"
  unfolding test_heartbeat_zero_iff
  by (simp_all add: bit_or_iff bit_and_iff bit_not_iff WDT_ENABLED_def WDT_DISABLED_def
        bit_push_bit_iff bit_1_iff)

lemma ioctl_heartbeat_bit:
  "(status (snd (tegra_wdt_ioctl cfg cmd ua m)) AND WDT_KERNEL_HEARTBEAT = 0) =
   (status m AND WDT_KERNEL_HEARTBEAT = 0)"
  by (cases cmd)
     (simp_all add: tegra_wdt_ioctl_def Let_def heartbeat_bit_simps split: option.split)

lemma reach_heartbeat_owned:
  assumes "reach cfg s m"
  shows "heartbeat_owned s m"
  using assms
proof (induction rule: reach.induct)
  case (by_probe pd ke hw m)
  from probe_done_shape [OF by_probe] show ?case
    by (auto simp: heartbeat_owned_def dev_info_def pr_info_def heartbeat_bit_simps
          wdt_enabled_def test_enabled_iff bit_or_iff bit_set_bit_iff WDT_ENABLED_def)
next
  case (by_open s m r m')
  from by_open(2) have "\<not> bit (users m) 1 \<and> status m' = status m OR WDT_ENABLED"
    by (auto simp: tegra_wdt_open_def test_and_set_bit_def Let_def split: if_splits)
  with by_open(3) show ?case
    by (auto simp: heartbeat_owned_def heartbeat_bit_simps)
next
  case (by_open_busy s m e m')
  from by_open_busy(2) have "m' = m"
    by (auto simp: tegra_wdt_open_def test_and_set_bit_def Let_def set_bit_users_idem
          split: if_splits)
  with by_open_busy(3) show ?case by simp
next
  case (by_write m um data len)
  then show ?case
    by (simp add: heartbeat_owned_def write_keeps_enabled_armed)
next
  case (by_ioctl m cmd ua)
  then show ?case
    by (simp add: heartbeat_owned_def ioctl_heartbeat_bit)
next
  case (by_release m)
  then show ?case
    by (auto simp: heartbeat_owned_def tegra_wdt_release_def Let_def dev_info_def
          heartbeat_bit_simps split: if_splits)
next
  case (by_interrupt_2x s m n)
  then show ?case
    by (auto simp: heartbeat_owned_def tegra_wdt_interrupt_2x_def Let_def wdt_enabled_def
          disable_irq_nosync_def tasklet_schedule_def)
next
  case (by_tasklet s m)
  then show ?case
    by (simp add: heartbeat_owned_def tegra_wdt_do_tasklet_def dev_info_def wdt_enabled_def)
next
  case (by_interrupt_3x s m warned warned' m')
  from by_interrupt_3x(3) have "status m' = status m \<and> users m' = users m"
    by (auto simp: tegra_wdt_interrupt_slot_def tegra_wdt_interrupt_instance_def Let_def
          split: if_splits prod.splits)
  with by_interrupt_3x(4) show ?case
    by (simp add: heartbeat_owned_def wdt_enabled_def)
next
  case (by_hw_status s m v)
  then show ?case by (simp add: heartbeat_owned_def wdt_enabled_def)
next
  case (by_notify s m code)
  then show ?case
    by (simp add: heartbeat_owned_def tegra_wdt_notify_def Let_def wdt_enabled_def)
next
  case (by_suspend s m)
  then show ?case
    by (simp add: heartbeat_owned_def tegra_wdt_suspend_def wdt_enabled_def)
next
  case (by_resume s m)
  then show ?case
    by (auto simp: heartbeat_owned_def tegra_wdt_resume_def Let_def wdt_enabled_def)
qed


lemma slot_heartbeat:
  assumes "status m AND WDT_KERNEL_HEARTBEAT \<noteq> 0" and "status m AND WDT_ENABLED \<noteq> 0"
    and "readl (Wdt_source, WDT_STATUS) m AND WDT_INTR_STAT \<noteq> 0"
  shows "tegra_wdt_interrupt_slot w (Some m) = (w, Some (tegra_wdt_ping_3x m))"
  using assms
  by (simp add: tegra_wdt_interrupt_slot_def tegra_wdt_interrupt_instance_def Let_def)

lemma slot_not_heartbeat:
  assumes "status m AND WDT_KERNEL_HEARTBEAT = 0"
  shows "snd (tegra_wdt_interrupt_slot w (Some m)) = Some m \<or>
         snd (tegra_wdt_interrupt_slot w (Some m)) = Some (emit Warn_on_once m)"
  using assms
  by (simp add: tegra_wdt_interrupt_slot_def tegra_wdt_interrupt_instance_def Let_def)

lemma scan_Cons:
  "tegra_wdt_interrupt_scan w (x # xs) =
     (fst (tegra_wdt_interrupt_scan (fst (tegra_wdt_interrupt_slot w x)) xs),
      snd (tegra_wdt_interrupt_slot w x) #
      snd (tegra_wdt_interrupt_scan (fst (tegra_wdt_interrupt_slot w x)) xs))"
  by (simp add: Let_def split: prod.split)

lemma scan_length: "length (snd (tegra_wdt_interrupt_scan w xs)) = length xs"
proof (induction xs arbitrary: w)
  case Nil
  show ?case by simp
next
  case (Cons x xs)
  show ?case unfolding scan_Cons by (simp add: Cons.IH)
qed

lemma scan_nth:
  "i < length xs \<Longrightarrow>
   \<exists>w'. snd (tegra_wdt_interrupt_scan w xs) ! i = snd (tegra_wdt_interrupt_slot w' (xs ! i))"
proof (induction xs arbitrary: w i)
  case Nil
  then show ?case by simp
next
  case (Cons x xs)
  show ?case
  proof (cases i)
    case 0
    have "snd (tegra_wdt_interrupt_scan w (x # xs)) ! 0 = snd (tegra_wdt_interrupt_slot w x)"
      unfolding scan_Cons by simp
    then show ?thesis unfolding 0 by (intro exI [of _ w]) simp
  next
    case (Suc j)
    with Cons.prems have "j < length xs" by simp
    from Cons.IH [OF this] obtain w' where
      "snd (tegra_wdt_interrupt_scan (fst (tegra_wdt_interrupt_slot w x)) xs) ! j =
       snd (tegra_wdt_interrupt_slot w' (xs ! j))"
      by blast
    moreover have "snd (tegra_wdt_interrupt_scan w (x # xs)) ! Suc j =
       snd (tegra_wdt_interrupt_scan (fst (tegra_wdt_interrupt_slot w x)) xs) ! j"
      unfolding scan_Cons by simp
    ultimately show ?thesis unfolding Suc by (intro exI [of _ w']) simp
  qed
qed

lemma handler_slots:
  "snd (snd (tegra_wdt_interrupt_3x w arr)) =
     snd (tegra_wdt_interrupt_scan w (take MAX_NR_CPU_WDT arr)) @ drop MAX_NR_CPU_WDT arr"
  by (simp add: tegra_wdt_interrupt_3x_def split: prod.split)

lemma handler_nth:
  assumes "i < MAX_NR_CPU_WDT" and "i < length arr"
  shows "\<exists>w'. snd (snd (tegra_wdt_interrupt_3x w arr)) ! i =
               snd (tegra_wdt_interrupt_slot w' (arr ! i))"
proof -
  let ?xs = "take MAX_NR_CPU_WDT arr"
  have len: "i < length ?xs" using assms by simp
  from scan_nth [OF this] obtain w' where
    w': "snd (tegra_wdt_interrupt_scan w ?xs) ! i = snd (tegra_wdt_interrupt_slot w' (?xs ! i))"
    by blast
  have x: "?xs ! i = arr ! i" using assms by simp
  have "i < length (snd (tegra_wdt_interrupt_scan w ?xs))"
    using len by (simp only: scan_length)
  then have "snd (snd (tegra_wdt_interrupt_3x w arr)) ! i =
      snd (tegra_wdt_interrupt_scan w ?xs) ! i"
    unfolding handler_slots by (simp only: nth_append if_True)
  with w' x show ?thesis by (intro exI [of _ w']) simp
qed

lemma handler_3x_heartbeat:
  assumes "soc cfg = Tegra3x" and "i < MAX_NR_CPU_WDT" and "i < length arr"
    and "arr ! i = Some m"
    and "status m AND WDT_KERNEL_HEARTBEAT \<noteq> 0" and "status m AND WDT_ENABLED \<noteq> 0"
    and "readl (Wdt_source, WDT_STATUS) m AND WDT_INTR_STAT \<noteq> 0"
  shows "snd (snd (tegra_wdt_interrupt_3x w arr)) ! i = Some (tegra_wdt_ping cfg m)"
proof -
  from handler_nth [OF assms(2,3), of w] obtain w' where
    "snd (snd (tegra_wdt_interrupt_3x w arr)) ! i = snd (tegra_wdt_interrupt_slot w' (arr ! i))"
    by blast
  then show ?thesis
    by (simp add: assms(4) slot_heartbeat [OF assms(5,6,7)] tegra_wdt_ping_def assms(1))
qed

lemma handler_3x_not_heartbeat:
  assumes "i < MAX_NR_CPU_WDT" and "i < length arr" and "arr ! i = Some m"
    and "status m AND WDT_KERNEL_HEARTBEAT = 0"
  shows "snd (snd (tegra_wdt_interrupt_3x w arr)) ! i = Some m \<or>
         snd (snd (tegra_wdt_interrupt_3x w arr)) ! i = Some (emit Warn_on_once m)"
proof -
  from handler_nth [OF assms(1,2), of w] obtain w' where
    "snd (snd (tegra_wdt_interrupt_3x w arr)) ! i = snd (tegra_wdt_interrupt_slot w' (arr ! i))"
    by blast
  with slot_not_heartbeat [OF assms(4), of w'] show ?thesis
    by (simp add: assms(3))
qed

lemma not_pinged_by_warning:
  "\<not> pinged cfg m m" "\<not> pinged cfg m (emit Warn_on_once m)"
  by (simp_all add: pinged_def new_events_def reload_write_def split: soc.split)


lemma probe_heartbeat_t30:
  "tegra_wdt_probe heartbeat_t30 wdt0_device kernel_ok hw_reset =
     (Probe_done, heartbeat_probed heartbeat_t30)"
proof -
  have "fst (tegra_wdt_probe heartbeat_t30 wdt0_device kernel_ok hw_reset) = Probe_done"
    by code_simp
  then show ?thesis by (simp add: heartbeat_probed_def prod_eq_iff)
qed

lemma probe_t30:
  "tegra_wdt_probe colibri_t30 wdt1_device kernel_ok hw_reset =
     (Probe_done, probed colibri_t30)"
proof -
  have "fst (tegra_wdt_probe colibri_t30 wdt1_device kernel_ok hw_reset) = Probe_done"
    by code_simp
  then show ?thesis by (simp add: probed_def prod_eq_iff)
qed

lemma reach_opened_t30: "reach colibri_t30 True (opened colibri_t30)"
proof -
  have r0: "reach colibri_t30 False (probed colibri_t30)"
    using probe_t30 by (rule reach.by_probe)
  have "fst (tegra_wdt_open colibri_t30 (probed colibri_t30)) = Inr 0" by code_simp
  then have "tegra_wdt_open colibri_t30 (probed colibri_t30) = (Inr 0, opened colibri_t30)"
    by (simp add: opened_def prod_eq_iff)
  with r0 show ?thesis by (rule reach.by_open)
qed

subsection \<open>C10: a write of length zero\<close>

text \<open>
  C10: a write of length zero returns 0, makes no call into the hardware (the trace
  and the registers are untouched, so there is no ping) and leaves \<open>way_out_ok\<close> and
  every other field as they were.
\<close>

theorem write_zero_length_is_noop:
  "tegra_wdt_write cfg um data 0 m = (Inr 0, m)"
  by (simp add: tegra_wdt_write_def)

theorem write_zero_length_is_noop_witness:
  "tegra_wdt_write colibri_t30 [0 \<mapsto> 0x56] 0 0
     (snd (tegra_wdt_write colibri_t30 [0 \<mapsto> 0x56] 0 1 (opened colibri_t30))) =
   (Inr 0, snd (tegra_wdt_write colibri_t30 [0 \<mapsto> 0x56] 0 1 (opened colibri_t30)))"
  by (rule write_zero_length_is_noop)

subsection \<open>C3: what a write of nonzero length does\<close>

text \<open>
  C3 (as amended): every write of nonzero length pings the hardware.  When the last
  byte of the buffer can be read, \<open>write\<close> returns the length and afterwards
  \<open>way_out_ok\<close> is set if and only if that byte is \<open>'V'\<close> (0x56); when it cannot be
  read, \<open>write\<close> returns \<open>-EFAULT\<close> and \<open>way_out_ok\<close> keeps its previous value.
\<close>

theorem write_pings_and_records_magic:
  assumes "len \<noteq> 0"
  shows "pinged cfg m (snd (tegra_wdt_write cfg um data len m)) \<and>
         (case um (data + len - 1) of
            Some c \<Rightarrow>
              fst (tegra_wdt_write cfg um data len m) = Inr len \<and>
              (way_out_ok (snd (tegra_wdt_write cfg um data len m)) \<noteq> 0 \<longleftrightarrow> c = 0x56)
          | None \<Rightarrow>
              fst (tegra_wdt_write cfg um data len m) = Inl EFAULT \<and>
              way_out_ok (snd (tegra_wdt_write cfg um data len m)) = way_out_ok m)"
  using assms
  by (auto simp: tegra_wdt_write_def Let_def pinged_ping split: option.split)

theorem write_pings_and_records_magic_witness:
  "(1::u32) \<noteq> 0 \<and>
   pinged colibri_t30 (opened colibri_t30)
     (snd (tegra_wdt_write colibri_t30 [0 \<mapsto> 0x56] 0 1 (opened colibri_t30))) \<and>
   fst (tegra_wdt_write colibri_t30 [0 \<mapsto> 0x56] 0 1 (opened colibri_t30)) = Inr 1 \<and>
   way_out_ok (snd (tegra_wdt_write colibri_t30 [0 \<mapsto> 0x56] 0 1 (opened colibri_t30))) \<noteq> 0 \<and>
   fst (tegra_wdt_write colibri_t30 Map.empty 0 1 (opened colibri_t30)) = Inl EFAULT \<and>
   way_out_ok (snd (tegra_wdt_write colibri_t30 Map.empty 0 1 (opened colibri_t30))) =
     way_out_ok (opened colibri_t30)"
proof -
  have h: "(1::u32) \<noteq> 0" by simp
  show ?thesis
    using h
      write_pings_and_records_magic [OF h, where um = "[0 \<mapsto> 0x56]" and data = 0
        and cfg = colibri_t30 and m = "opened colibri_t30"]
      write_pings_and_records_magic [OF h, where um = Map.empty and data = 0
        and cfg = colibri_t30 and m = "opened colibri_t30"]
    by simp
qed

text \<open>
  C3 as stated fails when the buffer cannot be read: after a write ending in \<open>'V'\<close>, a
  write of one byte from an unmapped address leaves \<open>way_out_ok\<close> set.
\<close>

theorem write_fault_keeps_magic_counterexample:
  "\<not> (way_out_ok (snd (tegra_wdt_write colibri_t30 Map.empty 0 1
          (snd (tegra_wdt_write colibri_t30 [0 \<mapsto> 0x56] 0 1 (opened colibri_t30))))) \<noteq> 0
       \<longleftrightarrow> (Map.empty :: umem) (0 + 1 - 1) = Some 0x56)"
  by code_simp

subsection \<open>C4: open\<close>

text \<open>
  C4: \<open>open\<close> fails with \<open>-EBUSY\<close> and changes nothing when the users flag (bit 1 of
  \<open>users\<close>, the bit \<open>test_and_set_bit\<close>, \<open>set_bit\<close> and \<open>clear_bit\<close> work on) is
  already set.  Otherwise it returns 0, sets the flag, resets \<open>way_out_ok\<close>, adds
  \<open>WDT_ENABLED\<close> to the status, sets the timeout to the \<open>heartbeat\<close> parameter and
  arms the hardware by \<open>tegra_wdt_enable\<close>.
\<close>

theorem open_busy_or_arms:
  "(bit (users m) 1 \<longrightarrow> tegra_wdt_open cfg m = (Inl EBUSY, m)) \<and>
   (\<not> bit (users m) 1 \<longrightarrow>
      fst (tegra_wdt_open cfg m) = Inr 0 \<and>
      bit (users (snd (tegra_wdt_open cfg m))) 1 \<and>
      users (snd (tegra_wdt_open cfg m)) = set_bit 1 (users m) \<and>
      way_out_ok (snd (tegra_wdt_open cfg m)) = 0 \<and>
      status (snd (tegra_wdt_open cfg m)) = status m OR WDT_ENABLED \<and>
      wdt_enabled (snd (tegra_wdt_open cfg m)) \<and>
      timeout (snd (tegra_wdt_open cfg m)) = heartbeat cfg \<and>
      hw_armed cfg (snd (tegra_wdt_open cfg m)) \<and>
      snd (tegra_wdt_open cfg m) =
        tegra_wdt_enable cfg
          (m\<lparr>users := set_bit 1 (users m), way_out_ok := 0,
             status := status m OR WDT_ENABLED, timeout := heartbeat cfg\<rparr>))"
  by (auto simp: tegra_wdt_open_def test_and_set_bit_def Let_def set_bit_users_idem
        nonseekable_open_def wdt_enabled_def test_enabled_iff bit_or_iff bit_set_bit_iff
        WDT_ENABLED_def)

theorem open_busy_or_arms_witness:
  "bit (users (opened colibri_t30)) 1 \<and>
   tegra_wdt_open colibri_t30 (opened colibri_t30) = (Inl EBUSY, opened colibri_t30) \<and>
   \<not> bit (users (probed colibri_t30)) 1 \<and>
   fst (tegra_wdt_open colibri_t30 (probed colibri_t30)) = Inr 0 \<and>
   bit (users (snd (tegra_wdt_open colibri_t30 (probed colibri_t30)))) 1 \<and>
   way_out_ok (snd (tegra_wdt_open colibri_t30 (probed colibri_t30))) = 0 \<and>
   wdt_enabled (snd (tegra_wdt_open colibri_t30 (probed colibri_t30))) \<and>
   timeout (snd (tegra_wdt_open colibri_t30 (probed colibri_t30))) = heartbeat colibri_t30 \<and>
   hw_armed colibri_t30 (snd (tegra_wdt_open colibri_t30 (probed colibri_t30)))"
proof -
  have busy: "bit (users (opened colibri_t30)) 1" by code_simp
  have free: "\<not> bit (users (probed colibri_t30)) 1" by code_simp
  show ?thesis
    using busy free
      open_busy_or_arms [of "opened colibri_t30" colibri_t30]
      open_busy_or_arms [of "probed colibri_t30" colibri_t30]
    by blast
qed

subsection \<open>C5: setting and reading the timeout\<close>

text \<open>
  C5: \<open>WDIOC_SETTIMEOUT\<close> with the value \<open>t\<close> applies \<open>t\<close> clamped to [5, 1000]:
  \<open>t\<close> itself inside the range, 5 below it, 1000 above it.  It reports the applied
  value to the caller, and a following \<open>WDIOC_GETTIMEOUT\<close> reports the same value.
\<close>

theorem settimeout_gettimeout_clamped:
  assumes "get_int ua = Some t"
  shows "timeout (snd (tegra_wdt_ioctl cfg WDIOC_SETTIMEOUT ua m)) =
           (if sint t < 5 then 5 else if 1000 < sint t then 1000 else t) \<and>
         (put_ok ua \<longrightarrow>
            fst (tegra_wdt_ioctl cfg WDIOC_SETTIMEOUT ua m) =
              (Inr 0, Put_int (if sint t < 5 then 5 else if 1000 < sint t then 1000 else t))) \<and>
         (put_ok ua' \<longrightarrow>
            fst (tegra_wdt_ioctl cfg WDIOC_GETTIMEOUT ua'
                   (snd (tegra_wdt_ioctl cfg WDIOC_SETTIMEOUT ua m))) =
              (Inr 0, Put_int (if sint t < 5 then 5 else if 1000 < sint t then 1000 else t)))"
proof -
  let ?c = "if sint t < 5 then 5 else if 1000 < sint t then 1000 else t"
  have set: "tegra_wdt_ioctl cfg WDIOC_SETTIMEOUT ua m =
     (put_user ?c ua, tegra_wdt_enable cfg ((tegra_wdt_disable cfg m)\<lparr>timeout := ?c\<rparr>))"
    using ioctl_settimeout [OF assms] by (simp only: clamp_period)
  have get: "\<And>m'. tegra_wdt_ioctl cfg WDIOC_GETTIMEOUT ua' m' = (put_user (timeout m') ua', m')"
    by (simp add: tegra_wdt_ioctl_def)
  show ?thesis
    unfolding set get by (simp add: put_user_def)
qed

theorem settimeout_gettimeout_clamped_witness:
  "get_int \<lparr>get_int = Some 10, put_ok = True, copy_left = 0\<rparr> = Some 10 \<and>
   timeout (snd (tegra_wdt_ioctl colibri_t30 WDIOC_SETTIMEOUT
      \<lparr>get_int = Some 10, put_ok = True, copy_left = 0\<rparr> (opened colibri_t30))) = 10 \<and>
   fst (tegra_wdt_ioctl colibri_t30 WDIOC_SETTIMEOUT
      \<lparr>get_int = Some 10, put_ok = True, copy_left = 0\<rparr> (opened colibri_t30)) =
     (Inr 0, Put_int 10) \<and>
   fst (tegra_wdt_ioctl colibri_t30 WDIOC_GETTIMEOUT
      \<lparr>get_int = None, put_ok = True, copy_left = 0\<rparr>
      (snd (tegra_wdt_ioctl colibri_t30 WDIOC_SETTIMEOUT
         \<lparr>get_int = Some 10, put_ok = True, copy_left = 0\<rparr> (opened colibri_t30)))) =
     (Inr 0, Put_int 10) \<and>
   get_int \<lparr>get_int = Some 5000, put_ok = True, copy_left = 0\<rparr> = Some 5000 \<and>
   fst (tegra_wdt_ioctl colibri_t30 WDIOC_SETTIMEOUT
      \<lparr>get_int = Some 5000, put_ok = True, copy_left = 0\<rparr> (opened colibri_t30)) =
     (Inr 0, Put_int 1000) \<and>
   get_int \<lparr>get_int = Some (- 1), put_ok = True, copy_left = 0\<rparr> = Some (- 1) \<and>
   fst (tegra_wdt_ioctl colibri_t30 WDIOC_SETTIMEOUT
      \<lparr>get_int = Some (- 1), put_ok = True, copy_left = 0\<rparr> (opened colibri_t30)) =
     (Inr 0, Put_int 5)"
proof -
  have a: "get_int \<lparr>get_int = Some (10::u32), put_ok = True, copy_left = 0\<rparr> = Some 10"
    by simp
  have b: "get_int \<lparr>get_int = Some (5000::u32), put_ok = True, copy_left = 0\<rparr> = Some 5000"
    by simp
  have c: "get_int \<lparr>get_int = Some (- 1::u32), put_ok = True, copy_left = 0\<rparr> = Some (- 1)"
    by simp
  show ?thesis
    using a b c
      settimeout_gettimeout_clamped [OF a,
        where ua' = "\<lparr>get_int = None, put_ok = True, copy_left = 0\<rparr>"
        and cfg = colibri_t30 and m = "opened colibri_t30"]
      settimeout_gettimeout_clamped [OF b,
        where ua' = "\<lparr>get_int = None, put_ok = True, copy_left = 0\<rparr>"
        and cfg = colibri_t30 and m = "opened colibri_t30"]
      settimeout_gettimeout_clamped [OF c,
        where ua' = "\<lparr>get_int = None, put_ok = True, copy_left = 0\<rparr>"
        and cfg = colibri_t30 and m = "opened colibri_t30"]
    by simp
qed

subsection \<open>C2: the magic close\<close>

text \<open>
  C2: without the no-way-out policy, on an enabled and armed instance, writes whose
  last one ends in \<open>'V'\<close> followed by \<open>release\<close> disarm the hardware and set the status
  to \<open>WDT_DISABLED\<close>; if the last write ends in another byte, the hardware stays armed
  and the instance enabled.
\<close>

theorem magic_close_disables_else_stays_armed:
  assumes "\<not> nowayout cfg" and "wdt_enabled m" and "hw_armed cfg m"
    and "list_all is_write ws" and "len \<noteq> 0" and "um (data + len - 1) = Some c"
  shows "(c = 0x56 \<longrightarrow>
            \<not> hw_armed cfg (run cfg (ws @ [Write um data len, Release]) m) \<and>
            status (run cfg (ws @ [Write um data len, Release]) m) = WDT_DISABLED) \<and>
         (c \<noteq> 0x56 \<longrightarrow>
            hw_armed cfg (run cfg (ws @ [Write um data len, Release]) m) \<and>
            wdt_enabled (run cfg (ws @ [Write um data len, Release]) m))"
proof -
  let ?m = "run cfg ws m"
  have en: "wdt_enabled ?m" and ar: "hw_armed cfg ?m"
    using writes_keep_enabled_armed [OF assms(4,2,3)] by simp_all
  have r: "run cfg (ws @ [Write um data len, Release]) m =
      snd (tegra_wdt_release cfg (snd (tegra_wdt_write cfg um data len ?m)))"
    by simp
  have rel: "snd (tegra_wdt_release cfg (snd (tegra_wdt_write cfg um data len ?m))) =
     (if c = 0x56
      then (tegra_wdt_disable cfg ((tegra_wdt_ping cfg ?m)\<lparr>way_out_ok := 1\<rparr>))
             \<lparr>status := WDT_DISABLED, users := clear_bit 1 (users ?m)\<rparr>
      else (dev_info ''No Magic Close received, watchdog not disabled!\<newline>''
              ((tegra_wdt_ping cfg ?m)\<lparr>way_out_ok := 0\<rparr>))
             \<lparr>users := clear_bit 1 (users ?m)\<rparr>)"
    using assms(1) en assms(5,6) by (rule release_after_write)
  show ?thesis
    unfolding r rel
    using en ar by (simp add: hw_armed_ping dev_info_def)
qed

theorem magic_close_disables_else_stays_armed_witness:
  "\<not> nowayout colibri_t30 \<and> wdt_enabled (opened colibri_t30) \<and>
   hw_armed colibri_t30 (opened colibri_t30) \<and>
   list_all is_write [Write [0 \<mapsto> 0x6F, 1 \<mapsto> 0x6B] 0 2] \<and> (3::u32) \<noteq> 0 \<and>
   [0 \<mapsto> 0x6F, 1 \<mapsto> 0x6B, 2 \<mapsto> (0x56::u8)] ((0::u32) + 3 - 1) = Some 0x56 \<and>
   \<not> hw_armed colibri_t30
      (run colibri_t30
         ([Write [0 \<mapsto> 0x6F, 1 \<mapsto> 0x6B] 0 2] @
          [Write [0 \<mapsto> 0x6F, 1 \<mapsto> 0x6B, 2 \<mapsto> 0x56] 0 3, Release])
         (opened colibri_t30)) \<and>
   status
      (run colibri_t30
         ([Write [0 \<mapsto> 0x6F, 1 \<mapsto> 0x6B] 0 2] @
          [Write [0 \<mapsto> 0x6F, 1 \<mapsto> 0x6B, 2 \<mapsto> 0x56] 0 3, Release])
         (opened colibri_t30)) = WDT_DISABLED \<and>
   (1::u32) \<noteq> 0 \<and> [0 \<mapsto> (0x78::u8)] ((0::u32) + 1 - 1) = Some 0x78 \<and>
   hw_armed colibri_t30
      (run colibri_t30
         ([Write [0 \<mapsto> 0x6F, 1 \<mapsto> 0x6B] 0 2] @ [Write [0 \<mapsto> 0x78] 0 1, Release])
         (opened colibri_t30)) \<and>
   wdt_enabled
      (run colibri_t30
         ([Write [0 \<mapsto> 0x6F, 1 \<mapsto> 0x6B] 0 2] @ [Write [0 \<mapsto> 0x78] 0 1, Release])
         (opened colibri_t30))"
proof -
  have p: "\<not> nowayout colibri_t30" by (simp add: colibri_t30_def)
  have en: "wdt_enabled (opened colibri_t30)" by code_simp
  have ar: "hw_armed colibri_t30 (opened colibri_t30)" by code_simp
  have ws: "list_all is_write [Write [0 \<mapsto> 0x6F, 1 \<mapsto> 0x6B] 0 2]" by simp
  have l3: "(3::u32) \<noteq> 0" and l1: "(1::u32) \<noteq> 0" by simp_all
  have v: "[0 \<mapsto> 0x6F, 1 \<mapsto> 0x6B, 2 \<mapsto> (0x56::u8)] ((0::u32) + 3 - 1) = Some 0x56"
    by simp
  have x: "[0 \<mapsto> (0x78::u8)] ((0::u32) + 1 - 1) = Some 0x78" by simp
  show ?thesis
    using p en ar ws l3 l1 v x
      magic_close_disables_else_stays_armed
        [where um = "[0 \<mapsto> 0x6F, 1 \<mapsto> 0x6B, 2 \<mapsto> 0x56]" and data = 0 and len = 3
           and c = "0x56", OF p en ar ws l3 v]
      magic_close_disables_else_stays_armed
        [where um = "[0 \<mapsto> 0x78]" and data = 0 and len = 1 and c = "0x78",
           OF p en ar ws l1 x]
    by simp
qed

subsection \<open>C1: no way out\<close>

text \<open>
  C1: with \<open>nowayout\<close> set, after any sequence of open, write, ioctl and release calls
  on an enabled and armed instance the status still includes \<open>WDT_ENABLED\<close> and the
  hardware is still armed.  In particular \<open>release\<close> leaves the registers and the
  status as they are, whatever \<open>way_out_ok\<close> is, and \<open>WDIOC_SETOPTIONS\<close> leaves the
  hardware armed whatever the option word is.
\<close>

theorem nowayout_never_disables:
  assumes "nowayout cfg" and "wdt_enabled m" and "hw_armed cfg m"
  shows "wdt_enabled (run cfg ops m) \<and> hw_armed cfg (run cfg ops m) \<and>
         io (snd (tegra_wdt_release cfg (run cfg ops m))) = io (run cfg ops m) \<and>
         status (snd (tegra_wdt_release cfg (run cfg ops m))) = status (run cfg ops m) \<and>
         hw_armed cfg (snd (tegra_wdt_ioctl cfg WDIOC_SETOPTIONS ua (run cfg ops m)))"
proof -
  have inv: "wdt_enabled (run cfg ops m) \<and> hw_armed cfg (run cfg ops m)"
    using assms by (rule run_nowayout)
  have rel: "io (snd (tegra_wdt_release cfg (run cfg ops m))) = io (run cfg ops m) \<and>
         status (snd (tegra_wdt_release cfg (run cfg ops m))) = status (run cfg ops m)"
    using assms(1) by (simp add: release_nowayout dev_info_def)
  have "hw_armed cfg (snd (tegra_wdt_ioctl cfg WDIOC_SETOPTIONS ua (run cfg ops m)))"
    using ioctl_nowayout_keeps_enabled_armed [OF assms(1)] inv by blast
  with inv rel show ?thesis by blast
qed

theorem nowayout_never_disables_witness:
  "nowayout (colibri_t30\<lparr>nowayout := True\<rparr>) \<and>
   wdt_enabled (opened (colibri_t30\<lparr>nowayout := True\<rparr>)) \<and>
   hw_armed (colibri_t30\<lparr>nowayout := True\<rparr>) (opened (colibri_t30\<lparr>nowayout := True\<rparr>)) \<and>
   wdt_enabled
     (run (colibri_t30\<lparr>nowayout := True\<rparr>) [Write [0 \<mapsto> 0x56] 0 1, Release, Open]
        (opened (colibri_t30\<lparr>nowayout := True\<rparr>))) \<and>
   hw_armed (colibri_t30\<lparr>nowayout := True\<rparr>)
     (run (colibri_t30\<lparr>nowayout := True\<rparr>) [Write [0 \<mapsto> 0x56] 0 1, Release, Open]
        (opened (colibri_t30\<lparr>nowayout := True\<rparr>))) \<and>
   hw_armed (colibri_t30\<lparr>nowayout := True\<rparr>)
     (snd (tegra_wdt_ioctl (colibri_t30\<lparr>nowayout := True\<rparr>) WDIOC_SETOPTIONS
        \<lparr>get_int = Some WDIOS_DISABLECARD, put_ok = True, copy_left = 0\<rparr>
        (run (colibri_t30\<lparr>nowayout := True\<rparr>) [Write [0 \<mapsto> 0x56] 0 1, Release, Open]
           (opened (colibri_t30\<lparr>nowayout := True\<rparr>)))))"
proof -
  have p: "nowayout (colibri_t30\<lparr>nowayout := True\<rparr>)" by simp
  have en: "wdt_enabled (opened (colibri_t30\<lparr>nowayout := True\<rparr>))" by code_simp
  have ar: "hw_armed (colibri_t30\<lparr>nowayout := True\<rparr>) (opened (colibri_t30\<lparr>nowayout := True\<rparr>))"
    by code_simp
  show ?thesis
    using p en ar
      nowayout_never_disables [OF p en ar,
        of "[Write [0 \<mapsto> 0x56] 0 1, Release, Open]"
           "\<lparr>get_int = Some WDIOS_DISABLECARD, put_ok = True, copy_left = 0\<rparr>"]
    by blast
qed

subsection \<open>C8: the interrupt handlers\<close>

text \<open>
  C8: when the status includes \<open>WDT_KERNEL_HEARTBEAT\<close> the handler pings.  The Tegra 2
  handler runs \<open>tegra_wdt_ping\<close> after counting the interrupt.  The Tegra 3 handler
  replaces every instance of the array that is enabled and whose status register has
  \<open>WDT_INTR_STAT\<close> by its \<open>tegra_wdt_ping\<close>; for a reachable instance the heartbeat
  flag implies that it is enabled.  Without the flag the Tegra 2 handler writes no
  register; it schedules the tasklet and disables the interrupt line, and the log
  message is printed by the tasklet.  Without the flag the Tegra 3 handler writes no
  register of the instance either, and it leaves an instance that is not enabled or
  has no interrupt pending exactly as it is.
\<close>

theorem interrupt_pings_for_heartbeat_only:
  "(soc cfg = Tegra2x \<and> status m AND WDT_KERNEL_HEARTBEAT \<noteq> 0 \<longrightarrow>
      snd (tegra_wdt_interrupt_2x n m) = tegra_wdt_ping cfg (m\<lparr>irq_counter := irq_counter m + 1\<rparr>) \<and>
      pinged cfg m (snd (tegra_wdt_interrupt_2x n m))) \<and>
   (soc cfg = Tegra3x \<and> i < MAX_NR_CPU_WDT \<and> i < length arr \<and> arr ! i = Some m \<and>
    status m AND WDT_KERNEL_HEARTBEAT \<noteq> 0 \<and> status m AND WDT_ENABLED \<noteq> 0 \<and>
    readl (Wdt_source, WDT_STATUS) m AND WDT_INTR_STAT \<noteq> 0 \<longrightarrow>
      snd (snd (tegra_wdt_interrupt_3x w arr)) ! i = Some (tegra_wdt_ping cfg m) \<and>
      pinged cfg m (the (snd (snd (tegra_wdt_interrupt_3x w arr)) ! i))) \<and>
   (soc cfg = Tegra3x \<and> reach cfg s m \<and> i < MAX_NR_CPU_WDT \<and> i < length arr \<and>
    arr ! i = Some m \<and> status m AND WDT_KERNEL_HEARTBEAT \<noteq> 0 \<and>
    readl (Wdt_source, WDT_STATUS) m AND WDT_INTR_STAT \<noteq> 0 \<longrightarrow>
      snd (snd (tegra_wdt_interrupt_3x w arr)) ! i = Some (tegra_wdt_ping cfg m) \<and>
      pinged cfg m (the (snd (snd (tegra_wdt_interrupt_3x w arr)) ! i))) \<and>
   (soc cfg = Tegra3x \<and> status m AND WDT_KERNEL_HEARTBEAT \<noteq> 0 \<longrightarrow>
      snd (tegra_wdt_interrupt_instance w m) = tegra_wdt_ping cfg m \<and>
      pinged cfg m (snd (tegra_wdt_interrupt_instance w m))) \<and>
   (soc cfg = Tegra2x \<and> status m AND WDT_KERNEL_HEARTBEAT = 0 \<longrightarrow>
      new_events m (snd (tegra_wdt_interrupt_2x n m)) = [Tasklet_schedule, Disable_irq_nosync n] \<and>
      io (snd (tegra_wdt_interrupt_2x n m)) = io m \<and>
      \<not> pinged cfg m (snd (tegra_wdt_interrupt_2x n m)) \<and>
      new_events (snd (tegra_wdt_interrupt_2x n m))
                 (tegra_wdt_do_tasklet (snd (tegra_wdt_interrupt_2x n m))) =
        [Dev_info ''Watchdog interrupt received, system will reset soon if no ping arrives\<newline>'']) \<and>
   (soc cfg = Tegra3x \<and> i < MAX_NR_CPU_WDT \<and> i < length arr \<and> arr ! i = Some m \<and>
    status m AND WDT_KERNEL_HEARTBEAT = 0 \<longrightarrow>
      io (the (snd (snd (tegra_wdt_interrupt_3x w arr)) ! i)) = io m \<and>
      \<not> pinged cfg m (the (snd (snd (tegra_wdt_interrupt_3x w arr)) ! i))) \<and>
   (soc cfg = Tegra3x \<and> i < MAX_NR_CPU_WDT \<and> i < length arr \<and> arr ! i = Some m \<and>
    (status m AND WDT_ENABLED = 0 \<or> readl (Wdt_source, WDT_STATUS) m AND WDT_INTR_STAT = 0) \<longrightarrow>
      snd (snd (tegra_wdt_interrupt_3x w arr)) ! i = Some m)"
proof (intro conjI impI)
  assume a: "soc cfg = Tegra2x \<and> status m AND WDT_KERNEL_HEARTBEAT \<noteq> 0"
  then show "snd (tegra_wdt_interrupt_2x n m) =
      tegra_wdt_ping cfg (m\<lparr>irq_counter := irq_counter m + 1\<rparr>)"
    by (simp add: tegra_wdt_interrupt_2x_def Let_def tegra_wdt_ping_def)
  have "pinged cfg (m\<lparr>irq_counter := irq_counter m + 1\<rparr>)
          (tegra_wdt_ping cfg (m\<lparr>irq_counter := irq_counter m + 1\<rparr>))"
    by (rule pinged_ping)
  then show "pinged cfg m (snd (tegra_wdt_interrupt_2x n m))"
    using a
    by (simp add: tegra_wdt_interrupt_2x_def Let_def tegra_wdt_ping_def pinged_def
          reload_write_def)
next
  assume a: "soc cfg = Tegra3x \<and> i < MAX_NR_CPU_WDT \<and> i < length arr \<and> arr ! i = Some m \<and>
    status m AND WDT_KERNEL_HEARTBEAT \<noteq> 0 \<and> status m AND WDT_ENABLED \<noteq> 0 \<and>
    readl (Wdt_source, WDT_STATUS) m AND WDT_INTR_STAT \<noteq> 0"
  then show r: "snd (snd (tegra_wdt_interrupt_3x w arr)) ! i = Some (tegra_wdt_ping cfg m)"
    by (intro handler_3x_heartbeat) simp_all
  show "pinged cfg m (the (snd (snd (tegra_wdt_interrupt_3x w arr)) ! i))"
    unfolding r by (simp add: pinged_ping)
next
  assume a: "soc cfg = Tegra3x \<and> reach cfg s m \<and> i < MAX_NR_CPU_WDT \<and> i < length arr \<and>
    arr ! i = Some m \<and> status m AND WDT_KERNEL_HEARTBEAT \<noteq> 0 \<and>
    readl (Wdt_source, WDT_STATUS) m AND WDT_INTR_STAT \<noteq> 0"
  from a have "reach cfg s m" by simp
  then have "heartbeat_owned s m" by (rule reach_heartbeat_owned)
  with a have en: "status m AND WDT_ENABLED \<noteq> 0"
    by (simp add: heartbeat_owned_def wdt_enabled_def)
  with a show r: "snd (snd (tegra_wdt_interrupt_3x w arr)) ! i = Some (tegra_wdt_ping cfg m)"
    by (intro handler_3x_heartbeat) simp_all
  show "pinged cfg m (the (snd (snd (tegra_wdt_interrupt_3x w arr)) ! i))"
    unfolding r by (simp add: pinged_ping)
next
  assume a: "soc cfg = Tegra3x \<and> status m AND WDT_KERNEL_HEARTBEAT \<noteq> 0"
  then show "snd (tegra_wdt_interrupt_instance w m) = tegra_wdt_ping cfg m"
    by (simp add: tegra_wdt_interrupt_instance_def Let_def tegra_wdt_ping_def)
  then show "pinged cfg m (snd (tegra_wdt_interrupt_instance w m))"
    by (simp add: pinged_ping)
next
  assume a: "soc cfg = Tegra2x \<and> status m AND WDT_KERNEL_HEARTBEAT = 0"
  then have s: "snd (tegra_wdt_interrupt_2x n m) =
     disable_irq_nosync n (tasklet_schedule (m\<lparr>irq_counter := irq_counter m + 1\<rparr>))"
    by (simp add: tegra_wdt_interrupt_2x_def Let_def)
  show "new_events m (snd (tegra_wdt_interrupt_2x n m)) = [Tasklet_schedule, Disable_irq_nosync n]"
    by (simp add: s new_events_def disable_irq_nosync_def tasklet_schedule_def)
  show "io (snd (tegra_wdt_interrupt_2x n m)) = io m"
    by (simp add: s disable_irq_nosync_def tasklet_schedule_def)
  show "\<not> pinged cfg m (snd (tegra_wdt_interrupt_2x n m))"
    by (simp add: s pinged_def new_events_def disable_irq_nosync_def tasklet_schedule_def
          reload_write_def split: soc.split)
  show "new_events (snd (tegra_wdt_interrupt_2x n m))
                 (tegra_wdt_do_tasklet (snd (tegra_wdt_interrupt_2x n m))) =
        [Dev_info ''Watchdog interrupt received, system will reset soon if no ping arrives\<newline>'']"
    by (simp add: new_events_def tegra_wdt_do_tasklet_def dev_info_def)
next
  assume a: "soc cfg = Tegra3x \<and> i < MAX_NR_CPU_WDT \<and> i < length arr \<and> arr ! i = Some m \<and>
    status m AND WDT_KERNEL_HEARTBEAT = 0"
  then have r: "snd (snd (tegra_wdt_interrupt_3x w arr)) ! i = Some m \<or>
         snd (snd (tegra_wdt_interrupt_3x w arr)) ! i = Some (emit Warn_on_once m)"
    by (intro handler_3x_not_heartbeat) simp_all
  then show "io (the (snd (snd (tegra_wdt_interrupt_3x w arr)) ! i)) = io m"
    by auto
  from r show "\<not> pinged cfg m (the (snd (snd (tegra_wdt_interrupt_3x w arr)) ! i))"
    by (auto simp: not_pinged_by_warning)
next
  assume a: "soc cfg = Tegra3x \<and> i < MAX_NR_CPU_WDT \<and> i < length arr \<and> arr ! i = Some m \<and>
    (status m AND WDT_ENABLED = 0 \<or> readl (Wdt_source, WDT_STATUS) m AND WDT_INTR_STAT = 0)"
  then have "i < MAX_NR_CPU_WDT" and "i < length arr" by simp_all
  from handler_nth [OF this, of w] obtain w' where
    "snd (snd (tegra_wdt_interrupt_3x w arr)) ! i = snd (tegra_wdt_interrupt_slot w' (arr ! i))"
    by blast
  moreover from a have "snd (tegra_wdt_interrupt_slot w' (Some m)) = Some m"
    by (auto simp: tegra_wdt_interrupt_slot_def Let_def)
  ultimately show "snd (snd (tegra_wdt_interrupt_3x w arr)) ! i = Some m"
    using a by simp
qed

theorem interrupt_pings_for_heartbeat_only_witness:
  "soc heartbeat_t20 = Tegra2x \<and>
   status (heartbeat_probed heartbeat_t20) AND WDT_KERNEL_HEARTBEAT \<noteq> 0 \<and>
   pinged heartbeat_t20 (heartbeat_probed heartbeat_t20)
     (snd (tegra_wdt_interrupt_2x 155 (heartbeat_probed heartbeat_t20))) \<and>
   soc heartbeat_t30 = Tegra3x \<and>
   reach heartbeat_t30 False (expired (heartbeat_probed heartbeat_t30)) \<and>
   (0::nat) < MAX_NR_CPU_WDT \<and>
   0 < length [Some (expired (heartbeat_probed heartbeat_t30)), None, None, None] \<and>
   [Some (expired (heartbeat_probed heartbeat_t30)), None, None, None] ! 0 =
     Some (expired (heartbeat_probed heartbeat_t30)) \<and>
   status (expired (heartbeat_probed heartbeat_t30)) AND WDT_KERNEL_HEARTBEAT \<noteq> 0 \<and>
   status (expired (heartbeat_probed heartbeat_t30)) AND WDT_ENABLED \<noteq> 0 \<and>
   readl (Wdt_source, WDT_STATUS) (expired (heartbeat_probed heartbeat_t30)) AND WDT_INTR_STAT \<noteq> 0 \<and>
   snd (snd (tegra_wdt_interrupt_3x False
      [Some (expired (heartbeat_probed heartbeat_t30)), None, None, None])) ! 0 =
     Some (tegra_wdt_ping heartbeat_t30 (expired (heartbeat_probed heartbeat_t30))) \<and>
   pinged heartbeat_t30 (expired (heartbeat_probed heartbeat_t30))
     (the (snd (snd (tegra_wdt_interrupt_3x False
        [Some (expired (heartbeat_probed heartbeat_t30)), None, None, None])) ! 0)) \<and>
   pinged heartbeat_t30 (expired (heartbeat_probed heartbeat_t30))
     (snd (tegra_wdt_interrupt_instance False (expired (heartbeat_probed heartbeat_t30)))) \<and>
   soc tegra2_build = Tegra2x \<and>
   status (opened tegra2_build) AND WDT_KERNEL_HEARTBEAT = 0 \<and>
   new_events (opened tegra2_build) (snd (tegra_wdt_interrupt_2x 155 (opened tegra2_build))) =
     [Tasklet_schedule, Disable_irq_nosync 155] \<and>
   \<not> pinged tegra2_build (opened tegra2_build)
        (snd (tegra_wdt_interrupt_2x 155 (opened tegra2_build))) \<and>
   soc colibri_t30 = Tegra3x \<and> (1::nat) < MAX_NR_CPU_WDT \<and>
   1 < length [None, Some (expired (opened colibri_t30))] \<and>
   [None, Some (expired (opened colibri_t30))] ! 1 = Some (expired (opened colibri_t30)) \<and>
   status (expired (opened colibri_t30)) AND WDT_KERNEL_HEARTBEAT = 0 \<and>
   \<not> pinged colibri_t30 (expired (opened colibri_t30))
        (the (snd (snd (tegra_wdt_interrupt_3x False
           [None, Some (expired (opened colibri_t30))])) ! 1)) \<and>
   0 < length [Some (opened colibri_t30)] \<and>
   [Some (opened colibri_t30)] ! 0 = Some (opened colibri_t30) \<and>
   readl (Wdt_source, WDT_STATUS) (opened colibri_t30) AND WDT_INTR_STAT = 0 \<and>
   snd (snd (tegra_wdt_interrupt_3x False [Some (opened colibri_t30)])) ! 0 =
     Some (opened colibri_t30)"
proof -
  let ?h = "expired (heartbeat_probed heartbeat_t30)"
  let ?u = "expired (opened colibri_t30)"
  have a: "soc heartbeat_t20 = Tegra2x" and b: "soc heartbeat_t30 = Tegra3x"
    and c: "soc tegra2_build = Tegra2x" and d: "soc colibri_t30 = Tegra3x"
    by (simp_all add: heartbeat_t20_def heartbeat_t30_def tegra2_build_def colibri_t30_def)
  have a': "status (heartbeat_probed heartbeat_t20) AND WDT_KERNEL_HEARTBEAT \<noteq> 0"
    by code_simp
  have b1: "status ?h AND WDT_KERNEL_HEARTBEAT \<noteq> 0" by code_simp
  have b2: "status ?h AND WDT_ENABLED \<noteq> 0" by code_simp
  have b3: "readl (Wdt_source, WDT_STATUS) ?h AND WDT_INTR_STAT \<noteq> 0" by code_simp
  have "reach heartbeat_t30 False (heartbeat_probed heartbeat_t30)"
    using probe_heartbeat_t30 by (rule reach.by_probe)
  then have b4: "reach heartbeat_t30 False ?h"
    unfolding expired_def using b by (rule reach.by_hw_status)
  have i0: "(0::nat) < MAX_NR_CPU_WDT" and i1: "(1::nat) < MAX_NR_CPU_WDT"
    by (simp_all add: MAX_NR_CPU_WDT_def)
  have l0: "0 < length [Some ?h, None, None, None]" and n0: "[Some ?h, None, None, None] ! 0 = Some ?h"
    and l1: "1 < length [None, Some ?u]" and n1: "[None, Some ?u] ! 1 = Some ?u"
    by simp_all
  have c': "status (opened tegra2_build) AND WDT_KERNEL_HEARTBEAT = 0" by code_simp
  have d': "status ?u AND WDT_KERNEL_HEARTBEAT = 0" by code_simp
  note t20 = interrupt_pings_for_heartbeat_only [of heartbeat_t20
      "heartbeat_probed heartbeat_t20" 155 0 "[]" False False]
  note t30 = interrupt_pings_for_heartbeat_only [of heartbeat_t30 ?h 155 0
      "[Some ?h, None, None, None]" False False]
  note u20 = interrupt_pings_for_heartbeat_only [of tegra2_build "opened tegra2_build" 155 0
      "[]" False False]
  note u30 = interrupt_pings_for_heartbeat_only [of colibri_t30 ?u 155 1 "[None, Some ?u]"
      False False]
  have w1: "pinged heartbeat_t20 (heartbeat_probed heartbeat_t20)
     (snd (tegra_wdt_interrupt_2x 155 (heartbeat_probed heartbeat_t20)))"
    using t20 [THEN conjunct1] a a' by blast
  have w2: "snd (snd (tegra_wdt_interrupt_3x False [Some ?h, None, None, None])) ! 0 =
     Some (tegra_wdt_ping heartbeat_t30 ?h) \<and>
     pinged heartbeat_t30 ?h
       (the (snd (snd (tegra_wdt_interrupt_3x False [Some ?h, None, None, None])) ! 0))"
    using t30 [THEN conjunct2, THEN conjunct1] b i0 l0 n0 b1 b2 b3 by blast
  have w3: "snd (snd (tegra_wdt_interrupt_3x False [Some ?h, None, None, None])) ! 0 =
     Some (tegra_wdt_ping heartbeat_t30 ?h)"
    using t30 [THEN conjunct2, THEN conjunct2, THEN conjunct1] b b4 i0 l0 n0 b1 b3 by blast
  have w4: "pinged heartbeat_t30 ?h (snd (tegra_wdt_interrupt_instance False ?h))"
    using t30 [THEN conjunct2, THEN conjunct2, THEN conjunct2, THEN conjunct1] b b1 by blast
  have w5: "new_events (opened tegra2_build)
       (snd (tegra_wdt_interrupt_2x 155 (opened tegra2_build))) =
     [Tasklet_schedule, Disable_irq_nosync 155] \<and>
     \<not> pinged tegra2_build (opened tegra2_build)
        (snd (tegra_wdt_interrupt_2x 155 (opened tegra2_build)))"
    using u20 [THEN conjunct2, THEN conjunct2, THEN conjunct2, THEN conjunct2, THEN conjunct1]
      c c' by blast
  have w6: "\<not> pinged colibri_t30 ?u
        (the (snd (snd (tegra_wdt_interrupt_3x False [None, Some ?u])) ! 1))"
    using u30 [THEN conjunct2, THEN conjunct2, THEN conjunct2, THEN conjunct2, THEN conjunct2,
        THEN conjunct1]
      d i1 l1 n1 d' by blast
  note v30 = interrupt_pings_for_heartbeat_only [of colibri_t30 "opened colibri_t30" 155 0
      "[Some (opened colibri_t30)]" False False]
  have e: "0 < length [Some (opened colibri_t30)]"
    and e': "[Some (opened colibri_t30)] ! 0 = Some (opened colibri_t30)"
    by simp_all
  have e'': "readl (Wdt_source, WDT_STATUS) (opened colibri_t30) AND WDT_INTR_STAT = 0"
    by code_simp
  have w7: "snd (snd (tegra_wdt_interrupt_3x False [Some (opened colibri_t30)])) ! 0 =
      Some (opened colibri_t30)"
    using v30 [THEN conjunct2, THEN conjunct2, THEN conjunct2, THEN conjunct2, THEN conjunct2,
        THEN conjunct2]
      d i0 e e' e'' by blast
  show ?thesis
    by (intro conjI a a' b b1 b2 b3 b4 i0 i1 l0 n0 l1 n1 c c' d d' w1 w4
          w2 [THEN conjunct1] w2 [THEN conjunct2] w5 [THEN conjunct1] w5 [THEN conjunct2] w6
          e e' e'' w7)
qed

subsection \<open>C9: failing copies from and to user memory\<close>

text \<open>
  C9 (as amended): a failed \<open>get_user\<close> makes \<open>WDIOC_SETTIMEOUT\<close> and \<open>WDIOC_SETOPTIONS\<close>
  return \<open>-EFAULT\<close> with the state unchanged; a failed \<open>put_user\<close> makes
  \<open>WDIOC_GETSTATUS\<close>, \<open>WDIOC_GETBOOTSTATUS\<close> and \<open>WDIOC_GETTIMEOUT\<close> return \<open>-EFAULT\<close>
  with the state unchanged, and makes \<open>WDIOC_SETTIMEOUT\<close> return \<open>-EFAULT\<close> after the
  new timeout has been applied; a \<open>write\<close> of nonzero length whose last byte cannot be
  read returns \<open>-EFAULT\<close> after the ping, with timeout, status and \<open>way_out_ok\<close>
  unchanged.  After that write the hardware of a reachable Tegra 3 instance is armed
  exactly if it was armed before; on Tegra 2 it is armed.
\<close>

theorem copy_fault_effects:
  "(get_int ua = None \<longrightarrow>
      tegra_wdt_ioctl cfg WDIOC_SETTIMEOUT ua m = ((Inl EFAULT, No_store), m) \<and>
      tegra_wdt_ioctl cfg WDIOC_SETOPTIONS ua m = ((Inl EFAULT, No_store), m)) \<and>
   (\<not> put_ok ua \<longrightarrow>
      tegra_wdt_ioctl cfg WDIOC_GETSTATUS ua m = ((Inl EFAULT, No_store), m) \<and>
      tegra_wdt_ioctl cfg WDIOC_GETBOOTSTATUS ua m = ((Inl EFAULT, No_store), m) \<and>
      tegra_wdt_ioctl cfg WDIOC_GETTIMEOUT ua m = ((Inl EFAULT, No_store), m)) \<and>
   (\<not> put_ok ua \<and> get_int ua = Some t \<longrightarrow>
      tegra_wdt_ioctl cfg WDIOC_SETTIMEOUT ua m =
        ((Inl EFAULT, No_store),
         tegra_wdt_enable cfg
           ((tegra_wdt_disable cfg m)\<lparr>timeout := clamp t MIN_WDT_PERIOD MAX_WDT_PERIOD\<rparr>))) \<and>
   (len \<noteq> 0 \<and> um (data + len - 1) = None \<longrightarrow>
      tegra_wdt_write cfg um data len m = (Inl EFAULT, tegra_wdt_ping cfg m) \<and>
      timeout (snd (tegra_wdt_write cfg um data len m)) = timeout m \<and>
      status (snd (tegra_wdt_write cfg um data len m)) = status m \<and>
      way_out_ok (snd (tegra_wdt_write cfg um data len m)) = way_out_ok m \<and>
      (hw_armed cfg m \<longrightarrow> hw_armed cfg (snd (tegra_wdt_write cfg um data len m))) \<and>
      (soc cfg = Tegra2x \<longrightarrow> hw_armed cfg (snd (tegra_wdt_write cfg um data len m))) \<and>
      (soc cfg = Tegra3x \<and> reach cfg s m \<longrightarrow>
         hw_armed cfg (snd (tegra_wdt_write cfg um data len m)) = hw_armed cfg m))"
proof (intro conjI impI)
  assume "get_int ua = None"
  then show "tegra_wdt_ioctl cfg WDIOC_SETTIMEOUT ua m = ((Inl EFAULT, No_store), m)"
    and "tegra_wdt_ioctl cfg WDIOC_SETOPTIONS ua m = ((Inl EFAULT, No_store), m)"
    by (simp_all add: tegra_wdt_ioctl_def)
next
  assume "\<not> put_ok ua"
  then show "tegra_wdt_ioctl cfg WDIOC_GETSTATUS ua m = ((Inl EFAULT, No_store), m)"
    and "tegra_wdt_ioctl cfg WDIOC_GETBOOTSTATUS ua m = ((Inl EFAULT, No_store), m)"
    and "tegra_wdt_ioctl cfg WDIOC_GETTIMEOUT ua m = ((Inl EFAULT, No_store), m)"
    by (simp_all add: tegra_wdt_ioctl_def put_user_def)
next
  assume "\<not> put_ok ua \<and> get_int ua = Some t"
  then show "tegra_wdt_ioctl cfg WDIOC_SETTIMEOUT ua m =
        ((Inl EFAULT, No_store),
         tegra_wdt_enable cfg
           ((tegra_wdt_disable cfg m)\<lparr>timeout := clamp t MIN_WDT_PERIOD MAX_WDT_PERIOD\<rparr>))"
    by (simp add: ioctl_settimeout put_user_def)
next
  assume a: "len \<noteq> 0 \<and> um (data + len - 1) = None"
  then show w: "tegra_wdt_write cfg um data len m = (Inl EFAULT, tegra_wdt_ping cfg m)"
    by (simp add: tegra_wdt_write_def Let_def)
  show "timeout (snd (tegra_wdt_write cfg um data len m)) = timeout m"
    and "status (snd (tegra_wdt_write cfg um data len m)) = status m"
    and "way_out_ok (snd (tegra_wdt_write cfg um data len m)) = way_out_ok m"
    by (simp_all add: w)
  {
    assume "hw_armed cfg m"
    then show "hw_armed cfg (snd (tegra_wdt_write cfg um data len m))"
      by (simp add: w hw_armed_ping)
  }
  {
    assume "soc cfg = Tegra2x"
    then show "hw_armed cfg (snd (tegra_wdt_write cfg um data len m))"
      by (simp add: w hw_armed_ping_2x)
  }
  {
    assume b: "soc cfg = Tegra3x \<and> reach cfg s m"
    then have "cmd_follows_timer m" using reach_cmd_follows_timer [of cfg s m] by blast
    with b show "hw_armed cfg (snd (tegra_wdt_write cfg um data len m)) = hw_armed cfg m"
      by (simp add: w ping_3x_keeps_arming)
  }
qed

theorem copy_fault_effects_witness:
  "get_int \<lparr>get_int = None, put_ok = False, copy_left = 40\<rparr> = (None :: u32 option) \<and>
   \<not> put_ok \<lparr>get_int = None :: u32 option, put_ok = False, copy_left = 40\<rparr> \<and>
   (1::u32) \<noteq> 0 \<and> (Map.empty :: umem) (0 + 1 - 1) = None \<and>
   hw_armed colibri_t30 (opened colibri_t30) \<and>
   soc colibri_t30 = Tegra3x \<and> reach colibri_t30 True (opened colibri_t30) \<and>
   tegra_wdt_ioctl colibri_t30 WDIOC_SETTIMEOUT
      \<lparr>get_int = None, put_ok = False, copy_left = 40\<rparr> (opened colibri_t30) =
     ((Inl EFAULT, No_store), opened colibri_t30) \<and>
   tegra_wdt_ioctl colibri_t30 WDIOC_GETTIMEOUT
      \<lparr>get_int = None, put_ok = False, copy_left = 40\<rparr> (opened colibri_t30) =
     ((Inl EFAULT, No_store), opened colibri_t30) \<and>
   tegra_wdt_write colibri_t30 Map.empty 0 1 (opened colibri_t30) =
     (Inl EFAULT, tegra_wdt_ping colibri_t30 (opened colibri_t30)) \<and>
   hw_armed colibri_t30 (snd (tegra_wdt_write colibri_t30 Map.empty 0 1 (opened colibri_t30))) \<and>
   hw_armed colibri_t30 (snd (tegra_wdt_write colibri_t30 Map.empty 0 1 (opened colibri_t30))) =
     hw_armed colibri_t30 (opened colibri_t30) \<and>
   soc tegra2_build = Tegra2x \<and>
   hw_armed tegra2_build (snd (tegra_wdt_write tegra2_build Map.empty 0 1 (opened tegra2_build))) \<and>
   \<not> put_ok \<lparr>get_int = Some (10::u32), put_ok = False, copy_left = 0\<rparr> \<and>
   get_int \<lparr>get_int = Some (10::u32), put_ok = False, copy_left = 0\<rparr> = Some 10 \<and>
   tegra_wdt_ioctl colibri_t30 WDIOC_SETTIMEOUT
      \<lparr>get_int = Some 10, put_ok = False, copy_left = 0\<rparr> (opened colibri_t30) =
     ((Inl EFAULT, No_store),
      tegra_wdt_enable colibri_t30
        ((tegra_wdt_disable colibri_t30 (opened colibri_t30))
           \<lparr>timeout := clamp 10 MIN_WDT_PERIOD MAX_WDT_PERIOD\<rparr>))"
proof -
  have g: "get_int \<lparr>get_int = None, put_ok = False, copy_left = 40\<rparr> = (None :: u32 option)"
    and p: "\<not> put_ok \<lparr>get_int = None :: u32 option, put_ok = False, copy_left = 40\<rparr>"
    and l: "(1::u32) \<noteq> 0" and u: "(Map.empty :: umem) (0 + 1 - 1) = None"
    and p': "\<not> put_ok \<lparr>get_int = Some (10::u32), put_ok = False, copy_left = 0\<rparr>"
    and g': "get_int \<lparr>get_int = Some (10::u32), put_ok = False, copy_left = 0\<rparr> = Some 10"
    by simp_all
  have ar: "hw_armed colibri_t30 (opened colibri_t30)" by code_simp
  have t3: "soc colibri_t30 = Tegra3x" and t2: "soc tegra2_build = Tegra2x"
    by (simp_all add: colibri_t30_def tegra2_build_def)
  note r = reach_opened_t30
  note f = copy_fault_effects [where ua = "\<lparr>get_int = None, put_ok = False, copy_left = 40\<rparr>"
        and cfg = colibri_t30 and m = "opened colibri_t30" and len = 1 and um = Map.empty
        and data = 0 and s = True]
  note f2 = copy_fault_effects [where cfg = tegra2_build and m = "opened tegra2_build"
        and len = 1 and um = Map.empty and data = 0]
  note h = copy_fault_effects [where ua = "\<lparr>get_int = Some 10, put_ok = False, copy_left = 0\<rparr>"
        and cfg = colibri_t30 and m = "opened colibri_t30" and t = 10]
  have w1: "tegra_wdt_ioctl colibri_t30 WDIOC_SETTIMEOUT
      \<lparr>get_int = None, put_ok = False, copy_left = 40\<rparr> (opened colibri_t30) =
     ((Inl EFAULT, No_store), opened colibri_t30)"
    using f [THEN conjunct1] g by blast
  have w2: "tegra_wdt_ioctl colibri_t30 WDIOC_GETTIMEOUT
      \<lparr>get_int = None, put_ok = False, copy_left = 40\<rparr> (opened colibri_t30) =
     ((Inl EFAULT, No_store), opened colibri_t30)"
    using f [THEN conjunct2, THEN conjunct1] p by blast
  have w3: "tegra_wdt_write colibri_t30 Map.empty 0 1 (opened colibri_t30) =
     (Inl EFAULT, tegra_wdt_ping colibri_t30 (opened colibri_t30)) \<and>
     hw_armed colibri_t30 (snd (tegra_wdt_write colibri_t30 Map.empty 0 1 (opened colibri_t30))) \<and>
     hw_armed colibri_t30 (snd (tegra_wdt_write colibri_t30 Map.empty 0 1 (opened colibri_t30))) =
       hw_armed colibri_t30 (opened colibri_t30)"
    using f [THEN conjunct2, THEN conjunct2, THEN conjunct2] l u ar t3 r by blast
  have w4: "hw_armed tegra2_build
      (snd (tegra_wdt_write tegra2_build Map.empty 0 1 (opened tegra2_build)))"
    using f2 [THEN conjunct2, THEN conjunct2, THEN conjunct2] l u t2 by blast
  have w5: "tegra_wdt_ioctl colibri_t30 WDIOC_SETTIMEOUT
      \<lparr>get_int = Some 10, put_ok = False, copy_left = 0\<rparr> (opened colibri_t30) =
     ((Inl EFAULT, No_store),
      tegra_wdt_enable colibri_t30
        ((tegra_wdt_disable colibri_t30 (opened colibri_t30))
           \<lparr>timeout := clamp 10 MIN_WDT_PERIOD MAX_WDT_PERIOD\<rparr>))"
    using h [THEN conjunct2, THEN conjunct2, THEN conjunct1] p' g' by blast
  show ?thesis
    by (intro conjI g p l u ar t3 r w1 w2 t2 w4 p' g' w5
          w3 [THEN conjunct1] w3 [THEN conjunct2, THEN conjunct1]
          w3 [THEN conjunct2, THEN conjunct2])
qed

text \<open>
  C9 as stated fails: \<open>WDIOC_SETTIMEOUT\<close> whose reply cannot be stored returns
  \<open>-EFAULT\<close> with the timeout changed from 60 to 10, and on Tegra 2 a faulting
  \<open>write\<close> arms hardware that \<open>WDIOC_SETOPTIONS\<close> had disarmed.
\<close>

theorem copy_fault_changes_state_counterexample:
  "fst (tegra_wdt_ioctl colibri_t30 WDIOC_SETTIMEOUT
          \<lparr>get_int = Some 10, put_ok = False, copy_left = 0\<rparr> (opened colibri_t30)) =
     (Inl EFAULT, No_store) \<and>
   timeout (opened colibri_t30) = 60 \<and>
   timeout (snd (tegra_wdt_ioctl colibri_t30 WDIOC_SETTIMEOUT
          \<lparr>get_int = Some 10, put_ok = False, copy_left = 0\<rparr> (opened colibri_t30))) = 10 \<and>
   \<not> hw_armed tegra2_build
        (snd (tegra_wdt_ioctl tegra2_build WDIOC_SETOPTIONS
           \<lparr>get_int = Some WDIOS_DISABLECARD, put_ok = True, copy_left = 0\<rparr>
           (opened tegra2_build))) \<and>
   fst (tegra_wdt_write tegra2_build Map.empty 0 1
        (snd (tegra_wdt_ioctl tegra2_build WDIOC_SETOPTIONS
           \<lparr>get_int = Some WDIOS_DISABLECARD, put_ok = True, copy_left = 0\<rparr>
           (opened tegra2_build)))) = Inl EFAULT \<and>
   hw_armed tegra2_build
     (snd (tegra_wdt_write tegra2_build Map.empty 0 1
        (snd (tegra_wdt_ioctl tegra2_build WDIOC_SETOPTIONS
           \<lparr>get_int = Some WDIOS_DISABLECARD, put_ok = True, copy_left = 0\<rparr>
           (opened tegra2_build)))))"
  by code_simp

subsection \<open>C7: the timeout of armed hardware\<close>

text \<open>
  C7: if the \<open>heartbeat\<close> parameter lies in [5, 1000], then in every reachable state
  in which the hardware is armed the timeout lies in [5, 1000].
\<close>

theorem armed_timeout_in_range:
  assumes "5 \<le> sint (heartbeat cfg)" and "sint (heartbeat cfg) \<le> 1000"
    and "reach cfg s m" and "hw_armed cfg m"
  shows "5 \<le> sint (timeout m) \<and> sint (timeout m) \<le> 1000"
proof -
  have "reach_inv cfg s m" using assms(3,1,2) by (rule reach_invariant)
  with assms(4) show ?thesis
    by (auto simp: reach_inv_def never_enabled_def timeout_in_range_def)
qed

theorem armed_timeout_in_range_witness:
  "5 \<le> sint (heartbeat colibri_t30) \<and> sint (heartbeat colibri_t30) \<le> 1000 \<and>
   reach colibri_t30 True (opened colibri_t30) \<and>
   hw_armed colibri_t30 (opened colibri_t30) \<and>
   5 \<le> sint (timeout (opened colibri_t30)) \<and> sint (timeout (opened colibri_t30)) \<le> 1000"
proof -
  have lo: "5 \<le> sint (heartbeat colibri_t30)" and hi: "sint (heartbeat colibri_t30) \<le> 1000"
    by (simp_all add: colibri_t30_def WDT_DEFAULT_TIME_def)
  have "fst (tegra_wdt_probe colibri_t30 wdt1_device kernel_ok hw_reset) = Probe_done"
    by code_simp
  then have "tegra_wdt_probe colibri_t30 wdt1_device kernel_ok hw_reset =
      (Probe_done, probed colibri_t30)"
    by (simp add: probed_def prod_eq_iff)
  then have r0: "reach colibri_t30 False (probed colibri_t30)" by (rule reach.by_probe)
  have "fst (tegra_wdt_open colibri_t30 (probed colibri_t30)) = Inr 0" by code_simp
  then have "tegra_wdt_open colibri_t30 (probed colibri_t30) = (Inr 0, opened colibri_t30)"
    by (simp add: opened_def prod_eq_iff)
  with r0 have r: "reach colibri_t30 True (opened colibri_t30)" by (rule reach.by_open)
  have ar: "hw_armed colibri_t30 (opened colibri_t30)" by code_simp
  show ?thesis
    using lo hi r ar armed_timeout_in_range [OF lo hi r ar] by blast
qed

subsection \<open>C6: the status flags after the first open\<close>

text \<open>
  C6: the probe leaves the status at \<open>WDT_DISABLED\<close>, and the first \<open>open\<close> only adds
  \<open>WDT_ENABLED\<close>: the status then holds both flags.
\<close>

theorem open_after_probe_sets_both_flags:
  "fst (tegra_wdt_probe colibri_t30 wdt1_device kernel_ok hw_reset) = Probe_done \<and>
   status (probed colibri_t30) = WDT_DISABLED \<and>
   fst (tegra_wdt_open colibri_t30 (probed colibri_t30)) = Inr 0 \<and>
   status (snd (tegra_wdt_open colibri_t30 (probed colibri_t30))) = WDT_DISABLED OR WDT_ENABLED \<and>
   status (snd (tegra_wdt_open colibri_t30 (probed colibri_t30))) AND WDT_DISABLED \<noteq> 0 \<and>
   status (snd (tegra_wdt_open colibri_t30 (probed colibri_t30))) AND WDT_ENABLED \<noteq> 0"
  by code_simp

theorem open_after_probe_sets_both_flags_witness:
  "status (opened colibri_t30) = 3"
  using open_after_probe_sets_both_flags
  by (simp add: opened_def WDT_DISABLED_def WDT_ENABLED_def)

end
